theory Spec2Isabelle
  imports Complex_Main "HOL-Library.Sublist"
begin

section \<open>JavaScript values used by the monitor\<close>

text \<open>
  A JavaScript \<^verbatim>\<open>number\<close>. Every finite double is a rational, so the finite values are
  embedded in \<^typ>\<open>rat\<close> (both zeros are \<open>Num 0\<close>: the comparisons below do not tell them
  apart, as in JavaScript); \<open>NaN\<close> and the two infinities are values of their own.
\<close>

datatype number = NaN | NegInfinity | Num rat | PosInfinity

text \<open>The relational operators \<^verbatim>\<open><\<close>, \<^verbatim>\<open>></\<close>, \<^verbatim>\<open><=\<close> and \<^verbatim>\<open>===\<close> on numbers: every
  comparison with \<open>NaN\<close> is false.\<close>

fun js_lt :: "number \<Rightarrow> number \<Rightarrow> bool" where
  "js_lt (Num a) (Num b) = (a < b)"
| "js_lt (Num a) PosInfinity = True"
| "js_lt NegInfinity (Num b) = True"
| "js_lt NegInfinity PosInfinity = True"
| "js_lt _ _ = False"

definition js_gt :: "number \<Rightarrow> number \<Rightarrow> bool" where
  "js_gt x y = js_lt y x"

definition js_strict_eq :: "number \<Rightarrow> number \<Rightarrow> bool" where
  "js_strict_eq x y = (x \<noteq> NaN \<and> x = y)"

definition js_le :: "number \<Rightarrow> number \<Rightarrow> bool" where
  "js_le x y = (js_lt x y \<or> js_strict_eq x y)"

text \<open>\<^verbatim>\<open>s.startsWith(t)\<close> and \<^verbatim>\<open>s.includes(t)\<close> on strings.\<close>

definition startsWith :: "string \<Rightarrow> string \<Rightarrow> bool" where
  "startsWith s t = prefix t s"

fun str_includes :: "string \<Rightarrow> string \<Rightarrow> bool" where
  "str_includes [] t = (t = [])"
| "str_includes (c # cs) t = (prefix t (c # cs) \<or> str_includes cs t)"

text \<open>A thrown JavaScript \<^verbatim>\<open>Error\<close>, with its message.\<close>

datatype error = Error string

section \<open>Configuration\<close>

text \<open>\<^verbatim>\<open>PriceMonitorConfig\<close> (PriceMonitor.ts, lines 7-15): the monitor's working state.\<close>

record PriceMonitorConfig =
  rpcUrl :: string
  poolAddress :: string
  telegramBotToken :: string
  telegramChatId :: string
  checkIntervalMs :: number
  priceLowerBound :: number
  priceUpperBound :: number

text \<open>
  \<^verbatim>\<open>MonitorConfig\<close> (FirebaseManager, lines 5-9): the document of the configuration store.
  Each field is optional; \<open>None\<close> is \<^verbatim>\<open>undefined\<close>. The fields carry the prefix \<open>opt_\<close>
  because the names without it are those of \<open>PriceMonitorConfig\<close>.
\<close>

record MonitorConfig =
  opt_priceLowerBound :: "number option"
  opt_priceUpperBound :: "number option"
  opt_poolAddress :: "string option"

text \<open>
  The \<^verbatim>\<open>FirebaseManager\<close> after its constructor: \<open>db\<close> and \<open>configRef\<close> say whether the
  two handles are non-null (they are null when the service account key is missing or
  the initialisation threw).
\<close>

record FirebaseManager =
  db :: bool
  configRef :: bool

section \<open>Effects\<close>

text \<open>
  The alert text of \<^verbatim>\<open>sendTelegramAlert\<close> (lines 137-140), kept as the values the template
  string is filled with: the pool, the price (printed with \<^verbatim>\<open>toFixed(6)\<close>) and the range
  for a price alert; the pool and the range for the start-up test message.
\<close>

datatype message =
    PriceAlert string number number number
  | MonitorStarted string number number

datatype telegramStatus = success | failed

text \<open>The object handed to \<^verbatim>\<open>logAlert\<close> (lines 175-182); Firestore adds the server's
  timestamp to it.\<close>

record AlertRecord =
  alert_poolAddress :: string
  alert_price :: number
  alert_lowerBound :: number
  alert_upperBound :: number
  alert_message :: message
  alert_telegramStatus :: telegramStatus

text \<open>The lines written to the console, one constructor for each call of
  \<^verbatim>\<open>console.log\<close>, \<^verbatim>\<open>console.warn\<close> or \<^verbatim>\<open>console.error\<close> in the two classes.\<close>

datatype console =
    SwitchingPool string
  | UpdatedLowerBound number
  | UpdatedUpperBound number
  | NewThresholds number number
  | CurrentPrice number bool
  | WaitingForConfiguration number
  | PriceOutOfBounds
  | ErrorCheckingPrice error
  | MockRuler
  | MockTelegramAlert
  | AlertText message
  | Failed404
  | FallingBack
  | FailedToSend nat string string
  | SentSuccessfully
  | ErrorSendingRequest error
  | AlertLogged
  | ErrorLoggingAlert error
  | SnapshotReceived bool
  | ReceivedConfigUpdate MonitorConfig
  | DocumentMissing

text \<open>
  What a run does to the outside world, in order:
  \<^item> \<open>Console l\<close>: a console line;
  \<^item> \<open>ClientGetPool a\<close>, \<open>FetcherGetPool a\<close>: the two requests of \<^verbatim>\<open>checkPrice\<close> for the
    pool at address \<open>a\<close> (lines 82 and 86);
  \<^item> \<open>Dispatch p t\<close>: \<^verbatim>\<open>sendTelegramAlert(p, t)\<close> was entered;
  \<^item> \<open>HttpPost url chat m\<close>: the \<^verbatim>\<open>fetch\<close> of lines 154-158;
  \<^item> \<open>AlertsAdd r\<close>: the document \<open>r\<close> was added to the collection \<^verbatim>\<open>alerts\<close>.
\<close>

datatype event =
    Console console
  | ClientGetPool string
  | FetcherGetPool string
  | Dispatch number bool
  | HttpPost string string message
  | AlertsAdd AlertRecord

section \<open>Configuration hot reload\<close>

text \<open>
  The callback that \<^verbatim>\<open>start\<close> passes to \<^verbatim>\<open>listenToConfig\<close> (PriceMonitor.ts, lines 55-70).
  A string is truthy when it is not empty.
\<close>

definition configCallback :: "PriceMonitorConfig \<Rightarrow> MonitorConfig \<Rightarrow> PriceMonitorConfig \<times> event list" where
  "configCallback config newConfig =
    (let (c1, e1) =
           (case opt_poolAddress newConfig of
              Some a \<Rightarrow>
                if a \<noteq> [] \<and> a \<noteq> poolAddress config
                then (config\<lparr>poolAddress := a\<rparr>, [Console (SwitchingPool a)])
                else (config, [])
            | None \<Rightarrow> (config, []));
         (c2, e2) =
           (case opt_priceLowerBound newConfig of
              Some l \<Rightarrow> (c1\<lparr>priceLowerBound := l\<rparr>, [Console (UpdatedLowerBound l)])
            | None \<Rightarrow> (c1, []));
         (c3, e3) =
           (case opt_priceUpperBound newConfig of
              Some u \<Rightarrow> (c2\<lparr>priceUpperBound := u\<rparr>, [Console (UpdatedUpperBound u)])
            | None \<Rightarrow> (c2, []))
     in (c3, e1 @ e2 @ e3 @
             [Console (NewThresholds (priceLowerBound c3) (priceUpperBound c3))]))"

text \<open>
  The snapshot handler of \<^verbatim>\<open>listenToConfig\<close> (FirebaseManager, lines 64-72): \<open>None\<close> is a
  snapshot of a document that does not exist. (The error handler of lines 73-75 writes
  one console line and touches nothing else; the listener's errors are not inputs here.)
\<close>

definition onSnapshot :: "PriceMonitorConfig \<Rightarrow> MonitorConfig option \<Rightarrow> PriceMonitorConfig \<times> event list" where
  "onSnapshot config doc =
    (case doc of
       Some data \<Rightarrow>
         (let (c, es) = configCallback config data
          in (c, Console (SnapshotReceived True) # Console (ReceivedConfigUpdate data) # es))
     | None \<Rightarrow> (config, [Console (SnapshotReceived False), Console DocumentMissing]))"

text \<open>
  The snapshots the store delivers, in the order of their arrival. \<^verbatim>\<open>listenToConfig\<close>
  returns without subscribing when a handle is null (line 62), and then no snapshot is
  ever handled.
\<close>

fun deliver :: "FirebaseManager \<Rightarrow> PriceMonitorConfig \<Rightarrow> MonitorConfig option list \<Rightarrow> PriceMonitorConfig \<times> event list" where
  "deliver fm config [] = (config, [])"
| "deliver fm config (doc # docs) =
    (if \<not> db fm \<or> \<not> configRef fm then (config, [])
     else (let (c1, e1) = onSnapshot config doc;
               (c2, e2) = deliver fm c1 docs
           in (c2, e1 @ e2)))"

section \<open>The notification dispatcher\<close>

text \<open>
  What the outside world answers to one call of \<^verbatim>\<open>sendTelegramAlert\<close>:
  \<^item> \<open>fetch\<close>: \<^verbatim>\<open>fetch\<close> rejects (a network error) or resolves with a response;
  \<^item> \<open>snapshotsDuringSend\<close>: the snapshots the configuration store delivers while the
    call awaits the channel (the callback runs between the request and the code after it);
  \<^item> \<open>addResult\<close>: the error of \<^verbatim>\<open>collection('alerts').add\<close>, if it fails.
\<close>

record response =
  status :: nat
  statusText :: string
  responseText :: "error + string"

record dispatch_env =
  fetch :: "error + response"
  snapshotsDuringSend :: "MonitorConfig option list"
  addResult :: "error option"

text \<open>\<^verbatim>\<open>response.ok\<close>: the status is in the range 200-299.\<close>

definition ok :: "response \<Rightarrow> bool" where
  "ok r = (200 \<le> status r \<and> status r < 300)"

text \<open>\<^verbatim>\<open>FirebaseManager.logAlert\<close> (lines 47-59). It has its own handler, so it never
  rejects; the caller does not await it.\<close>

definition logAlert :: "FirebaseManager \<Rightarrow> AlertRecord \<Rightarrow> error option \<Rightarrow> event list" where
  "logAlert fm alertData added =
    (if \<not> db fm then []
     else (case added of
             None \<Rightarrow> [AlertsAdd alertData, Console AlertLogged]
           | Some e \<Rightarrow> [Console (ErrorLoggingAlert e)]))"

text \<open>The test of line 143: the bot token is a placeholder.\<close>

definition isPlaceholderToken :: "string \<Rightarrow> bool" where
  "isPlaceholderToken token =
    (str_includes token ''123456:ABC'' \<or> str_includes token ''TELEGRAM_BOT_TOKEN'')"

text \<open>
  The \<^verbatim>\<open>try\<close> block of \<^verbatim>\<open>sendTelegramAlert\<close> (lines 153-183). The result is the
  configuration as the snapshots left it, the events, and \<open>Inl e\<close> when the block threw
  \<open>e\<close>. The record for the audit trail reads the configuration after the awaits.
\<close>

definition sendTelegramAlert_try ::
  "FirebaseManager \<Rightarrow> PriceMonitorConfig \<Rightarrow> number \<Rightarrow> bool \<Rightarrow> message \<Rightarrow> string \<Rightarrow> dispatch_env
     \<Rightarrow> PriceMonitorConfig \<times> event list \<times> (error + unit)" where
  "sendTelegramAlert_try fm config price isTest message url env =
    (let post = HttpPost url (telegramChatId config) message;
         (config1, arrived) = deliver fm config (snapshotsDuringSend env)
     in case fetch env of
          Inl e \<Rightarrow> (config1, post # arrived, Inl e)
        | Inr response \<Rightarrow>
            (case (if \<not> ok response
                   then (if status response = 404
                         then Inr [Console Failed404, Console FallingBack, Console (AlertText message)]
                         else (case responseText response of
                                 Inl e \<Rightarrow> Inl e
                               | Inr errorText \<Rightarrow>
                                   Inr [Console (FailedToSend (status response) (statusText response) errorText)]))
                   else Inr [Console SentSuccessfully]) of
               Inl e \<Rightarrow> (config1, post # arrived, Inl e)
             | Inr logged \<Rightarrow>
                 (config1,
                  post # arrived @ logged @
                    (if \<not> isTest
                     then logAlert fm
                            \<lparr> alert_poolAddress = poolAddress config1,
                              alert_price = price,
                              alert_lowerBound = priceLowerBound config1,
                              alert_upperBound = priceUpperBound config1,
                              alert_message = message,
                              alert_telegramStatus = (if ok response then success else failed) \<rparr>
                            (addResult env)
                     else []),
                  Inr ())))"

text \<open>The message of lines 137-140 and the address of line 151.\<close>

definition alertMessage :: "PriceMonitorConfig \<Rightarrow> number \<Rightarrow> bool \<Rightarrow> message" where
  "alertMessage config price isTest =
    (if isTest
     then MonitorStarted (poolAddress config) (priceLowerBound config) (priceUpperBound config)
     else PriceAlert (poolAddress config) price (priceLowerBound config) (priceUpperBound config))"

definition sendMessageUrl :: "PriceMonitorConfig \<Rightarrow> string" where
  "sendMessageUrl config = ''https://api.telegram.org/bot'' @ telegramBotToken config @ ''/sendMessage''"

text \<open>\<^verbatim>\<open>sendTelegramAlert\<close> (lines 136-187): the message, the demo mode, the \<^verbatim>\<open>try\<close> block
  and its \<^verbatim>\<open>catch\<close>. The first event records the call.\<close>

definition sendTelegramAlert ::
  "FirebaseManager \<Rightarrow> PriceMonitorConfig \<Rightarrow> number \<Rightarrow> bool \<Rightarrow> dispatch_env
     \<Rightarrow> PriceMonitorConfig \<times> event list \<times> (error + unit)" where
  "sendTelegramAlert fm config price isTest env =
    (let message = alertMessage config price isTest
     in if isPlaceholderToken (telegramBotToken config)
        then (config,
              [Dispatch price isTest, Console MockRuler, Console MockTelegramAlert,
               Console (AlertText message), Console MockRuler],
              Inr ())
        else (let url = sendMessageUrl config
              in case sendTelegramAlert_try fm config price isTest message url env of
                   (config1, es, Inl e) \<Rightarrow>
                     (config1, Dispatch price isTest # es @ [Console (ErrorSendingRequest e)], Inr ())
                 | (config1, es, Inr u) \<Rightarrow> (config1, Dispatch price isTest # es, Inr u)))"

section \<open>The price watch loop\<close>

text \<open>
  The functions of the Whirlpool SDK and of \<^verbatim>\<open>decimal.js\<close> that \<^verbatim>\<open>checkPrice\<close> calls are
  parameters; \<open>'d\<close> is the type \<^verbatim>\<open>Decimal\<close>. \<^verbatim>\<open>PriceMath.invertPrice\<close> goes through a tick
  index and throws when the price is outside the supported range.
\<close>

record 'd sdk =
  sqrtPriceX64ToPrice :: "nat \<Rightarrow> nat \<Rightarrow> nat \<Rightarrow> 'd"
  invertPrice :: "'d \<Rightarrow> nat \<Rightarrow> nat \<Rightarrow> error + 'd"
  toNumber :: "'d \<Rightarrow> number"

record token_info =
  mint :: string
  decimals :: nat

record pool =
  tokenAInfo :: token_info
  tokenBInfo :: token_info

text \<open>
  What the outside world answers during one call of \<^verbatim>\<open>checkPrice\<close>. The three functions
  take the address the call asks for:
  \<^item> \<open>newPublicKey a\<close>: the error \<^verbatim>\<open>new PublicKey(a)\<close> throws, if \<open>a\<close> is not a key;
  \<^item> \<open>clientGetPool a\<close>: \<^verbatim>\<open>client.getPool\<close> rejects or resolves with the pool;
  \<^item> \<open>fetcherGetPool a\<close>: \<^verbatim>\<open>ctx.fetcher.getPool\<close> rejects, or resolves with \<^verbatim>\<open>null\<close> or
    with pool data, of which \<^verbatim>\<open>sqrtPrice\<close> is read;
  \<^item> \<open>snapshotsDuringFetch\<close>: the snapshots delivered while the two requests are awaited;
  \<^item> \<open>dispatchEnv\<close>: the answers to the alert, if one is sent.
\<close>

record tick_env =
  newPublicKey :: "string \<Rightarrow> error option"
  clientGetPool :: "string \<Rightarrow> error + pool"
  fetcherGetPool :: "string \<Rightarrow> error + nat option"
  snapshotsDuringFetch :: "MonitorConfig option list"
  dispatchEnv :: dispatch_env

text \<open>The orientation heuristic (lines 109-114): the price is inverted when the mint of
  token A starts with \<^verbatim>\<open>EPj\<close> (USDC) or \<^verbatim>\<open>Es9\<close> (USDT).\<close>

definition isQuoteToken :: "string \<Rightarrow> bool" where
  "isQuoteToken mintA = (startsWith mintA ''EPj'' \<or> startsWith mintA ''Es9'')"

definition orientPrice ::
  "('d \<Rightarrow> nat \<Rightarrow> nat \<Rightarrow> error + 'd) \<Rightarrow> string \<Rightarrow> 'd \<Rightarrow> nat \<Rightarrow> nat \<Rightarrow> error + 'd" where
  "orientPrice invert mintA price decimalsA decimalsB =
    (if isQuoteToken mintA then invert price decimalsA decimalsB else Inr price)"

text \<open>
  Lines 82-116 of \<^verbatim>\<open>checkPrice\<close>: the two requests, the price and its orientation. The
  result is the requests made and either the error thrown or \<^verbatim>\<open>priceNum\<close> with
  \<^verbatim>\<open>isQuoteTokenA\<close>. (\<^verbatim>\<open>toBase58\<close> of the key prints the address it was made from.)
\<close>

definition fetchPrice :: "'d sdk \<Rightarrow> tick_env \<Rightarrow> string \<Rightarrow> event list \<times> (error + number \<times> bool)" where
  "fetchPrice sdk env address =
    (case clientGetPool env address of
       Inl e \<Rightarrow> ([ClientGetPool address], Inl e)
     | Inr pool \<Rightarrow>
         (case fetcherGetPool env address of
            Inl e \<Rightarrow> ([ClientGetPool address, FetcherGetPool address], Inl e)
          | Inr None \<Rightarrow>
              ([ClientGetPool address, FetcherGetPool address],
               Inl (Error (''Unable to fetch pool data for '' @ address)))
          | Inr (Some sqrtPrice) \<Rightarrow>
              (let decimalsA = decimals (tokenAInfo pool);
                   decimalsB = decimals (tokenBInfo pool);
                   price = sqrtPriceX64ToPrice sdk sqrtPrice decimalsA decimalsB;
                   mintA = mint (tokenAInfo pool)
               in case orientPrice (invertPrice sdk) mintA price decimalsA decimalsB of
                    Inl e \<Rightarrow> ([ClientGetPool address, FetcherGetPool address], Inl e)
                  | Inr oriented \<Rightarrow>
                      ([ClientGetPool address, FetcherGetPool address],
                       Inr (toNumber sdk oriented, isQuoteToken mintA)))))"

text \<open>The \<^verbatim>\<open>try\<close> block of \<^verbatim>\<open>checkPrice\<close> (lines 80-130). The bounds are read after the
  requests, so the snapshots delivered meanwhile count.\<close>

definition checkPrice_try ::
  "'d sdk \<Rightarrow> FirebaseManager \<Rightarrow> PriceMonitorConfig \<Rightarrow> tick_env
     \<Rightarrow> PriceMonitorConfig \<times> event list \<times> (error + unit)" where
  "checkPrice_try sdk fm config env =
    (let address = poolAddress config
     in case newPublicKey env address of
          Some e \<Rightarrow> (config, [], Inl e)
        | None \<Rightarrow>
            (let (requests, observed) = fetchPrice sdk env address;
                 (config1, arrived) = deliver fm config (snapshotsDuringFetch env)
             in case observed of
                  Inl e \<Rightarrow> (config1, requests @ arrived, Inl e)
                | Inr (priceNum, isQuoteTokenA) \<Rightarrow>
                    (let shown = requests @ arrived @ [Console (CurrentPrice priceNum isQuoteTokenA)]
                     in if js_strict_eq (priceLowerBound config1) (Num 0)
                           \<and> js_strict_eq (priceUpperBound config1) (Num 0)
                        then (config1, shown @ [Console (WaitingForConfiguration priceNum)], Inr ())
                        else if js_lt priceNum (priceLowerBound config1)
                                \<or> js_gt priceNum (priceUpperBound config1)
                        then (let (config2, sent, r) =
                                    sendTelegramAlert fm config1 priceNum False (dispatchEnv env)
                              in (config2, shown @ [Console PriceOutOfBounds] @ sent, r))
                        else (config1, shown, Inr ()))))"

text \<open>\<^verbatim>\<open>checkPrice\<close> (lines 79-134): the \<^verbatim>\<open>try\<close> block and its \<^verbatim>\<open>catch\<close>.\<close>

definition checkPrice ::
  "'d sdk \<Rightarrow> FirebaseManager \<Rightarrow> PriceMonitorConfig \<Rightarrow> tick_env
     \<Rightarrow> PriceMonitorConfig \<times> event list \<times> (error + unit)" where
  "checkPrice sdk fm config env =
    (case checkPrice_try sdk fm config env of
       (config1, es, Inl e) \<Rightarrow> (config1, es @ [Console (ErrorCheckingPrice e)], Inr ())
     | (config1, es, Inr u) \<Rightarrow> (config1, es, Inr u))"

text \<open>
  The monitor after \<^verbatim>\<open>start\<close>: the timer of line 76 fires (\<open>Tick\<close>, with the answers of
  the outside world to that poll) and the store delivers snapshots between the polls
  (\<open>Snapshot\<close>). A poll that rejected would be an unhandled rejection, which ends the
  process: the loop stops there with the error.
\<close>

datatype 'e input = Snapshot "MonitorConfig option" | Tick 'e

fun watchLoop ::
  "'d sdk \<Rightarrow> FirebaseManager \<Rightarrow> PriceMonitorConfig \<Rightarrow> tick_env input list
     \<Rightarrow> PriceMonitorConfig \<times> event list \<times> (error + unit)" where
  "watchLoop sdk fm config [] = (config, [], Inr ())"
| "watchLoop sdk fm config (Snapshot doc # ins) =
    (let (config1, e1) = deliver fm config [doc];
         (config2, e2, r) = watchLoop sdk fm config1 ins
     in (config2, e1 @ e2, r))"
| "watchLoop sdk fm config (Tick env # ins) =
    (case checkPrice sdk fm config env of
       (config1, e1, Inl e) \<Rightarrow> (config1, e1, Inl e)
     | (config1, e1, Inr u) \<Rightarrow>
         (let (config2, e2, r) = watchLoop sdk fm config1 ins
          in (config2, e1 @ e2, r)))"

text \<open>Reading a trace: the calls of the dispatcher, the requests to the channel, the
  documents added to the audit trail, and the addresses asked of the chain.\<close>

fun dispatches :: "event list \<Rightarrow> (number \<times> bool) list" where
  "dispatches [] = []"
| "dispatches (Dispatch p t # es) = (p, t) # dispatches es"
| "dispatches (_ # es) = dispatches es"

fun posts :: "event list \<Rightarrow> (string \<times> string \<times> message) list" where
  "posts [] = []"
| "posts (HttpPost u c m # es) = (u, c, m) # posts es"
| "posts (_ # es) = posts es"

fun alertRecords :: "event list \<Rightarrow> AlertRecord list" where
  "alertRecords [] = []"
| "alertRecords (AlertsAdd r # es) = r # alertRecords es"
| "alertRecords (_ # es) = alertRecords es"

fun queried :: "event list \<Rightarrow> string list" where
  "queried [] = []"
| "queried (ClientGetPool a # es) = a # queried es"
| "queried (FetcherGetPool a # es) = a # queried es"
| "queried (_ # es) = queried es"

text \<open>Modelled from the spec: the SDK's \<^verbatim>\<open>invertPrice\<close> is not part of the repository; the
  spec reads it as "invert the raw price". This is the exact reciprocal on rational
  prices, which throws at zero; it stands for \<^verbatim>\<open>invertPrice\<close> in concrete evaluations.\<close>

definition reciprocalPrice :: "rat \<Rightarrow> nat \<Rightarrow> nat \<Rightarrow> error + rat" where
  "reciprocalPrice price decimalsA decimalsB =
    (if price = 0 then Inl (Error ''Provided price is not within the supported range.'')
     else Inr (1 / price))"

section \<open>The dashboard's socket hook\<close>

text \<open>
  The options of \<^verbatim>\<open>useWebSocket\<close> (useWebSocket.ts, lines 9-16) that the reconnection
  reads; \<open>None\<close> is a missing option. The delay is in milliseconds and the cap is a
  count, so both are natural numbers. The callbacks are the caller's and appear as
  effects.
\<close>

record UseWebSocketOptions =
  url :: "string option"
  reconnectDelay :: "nat option"
  maxReconnectAttempts :: "nat option"

definition WS_URL :: string where
  "WS_URL = ''ws://localhost:3001''"

text \<open>Lines 36-38: the defaults, with \<^verbatim>\<open>??\<close>.\<close>

definition url_of :: "UseWebSocketOptions \<Rightarrow> string" where
  "url_of options = (case url options of Some u \<Rightarrow> u | None \<Rightarrow> WS_URL)"

definition reconnectDelay_of :: "UseWebSocketOptions \<Rightarrow> nat" where
  "reconnectDelay_of options = (case reconnectDelay options of Some d \<Rightarrow> d | None \<Rightarrow> 3000)"

definition maxReconnectAttempts_of :: "UseWebSocketOptions \<Rightarrow> nat" where
  "maxReconnectAttempts_of options = (case maxReconnectAttempts options of Some m \<Rightarrow> m | None \<Rightarrow> 10)"

text \<open>
  The state of the hook: the React state \<open>isConnected\<close>, the ref \<open>reconnectAttempts\<close>,
  whether \<open>wsRef\<close> holds a socket, and what the browser holds for the hook: the timeouts
  set and not yet fired, and the sockets created and not yet closed.
\<close>

record hook =
  isConnected :: bool
  reconnectAttempts :: nat
  wsRef :: bool
  pendingTimeouts :: nat
  liveSockets :: nat

datatype ws_effect =
    NewWebSocket string
  | CloseSocket
  | SetTimeoutConnect nat
  | OnConnect
  | OnDisconnect
  | LogConnected
  | LogDisconnected
  | LogReconnecting nat nat
  | LogSocketError
  | LogCreateFailed error

text \<open>\<^verbatim>\<open>connect\<close> (lines 40-86); \<open>thrown\<close> is the error \<^verbatim>\<open>new WebSocket(url)\<close> throws, if any.\<close>

definition connect :: "UseWebSocketOptions \<Rightarrow> error option \<Rightarrow> hook \<Rightarrow> hook \<times> ws_effect list" where
  "connect options thrown h =
    (let closing = (if wsRef h then [CloseSocket] else [])
     in case thrown of
          Some e \<Rightarrow> (h, closing @ [LogCreateFailed e])
        | None \<Rightarrow>
            (h\<lparr>wsRef := True, liveSockets := liveSockets h + 1\<rparr>,
             closing @ [NewWebSocket (url_of options)]))"

text \<open>\<^verbatim>\<open>ws.onopen\<close> (lines 50-55).\<close>

definition onopen :: "hook \<Rightarrow> hook \<times> ws_effect list" where
  "onopen h = (h\<lparr>isConnected := True, reconnectAttempts := 0\<rparr>, [LogConnected, OnConnect])"

text \<open>\<^verbatim>\<open>ws.onclose\<close> (lines 67-78).\<close>

definition onclose :: "UseWebSocketOptions \<Rightarrow> hook \<Rightarrow> hook \<times> ws_effect list" where
  "onclose options h =
    (let h1 = h\<lparr>isConnected := False\<rparr>
     in if reconnectAttempts h1 < maxReconnectAttempts_of options
        then (h1\<lparr>reconnectAttempts := reconnectAttempts h1 + 1,
                 pendingTimeouts := pendingTimeouts h1 + 1\<rparr>,
              [LogDisconnected, OnDisconnect,
               LogReconnecting (reconnectAttempts h1 + 1) (maxReconnectAttempts_of options),
               SetTimeoutConnect (reconnectDelay_of options)])
        else (h1, [LogDisconnected, OnDisconnect]))"

text \<open>
  What the browser does to a mounted hook: a socket opens, fails (\<^verbatim>\<open>onerror\<close>, lines
  80-82) or closes, and a timeout fires and runs \<^verbatim>\<open>connect\<close>. Only a socket that is
  not yet closed opens or closes, and only a timeout that was set fires.
\<close>

datatype ws_input = Opened | Errored | Closed | TimeoutFired "error option"

fun ws_step :: "UseWebSocketOptions \<Rightarrow> hook \<Rightarrow> ws_input \<Rightarrow> hook \<times> ws_effect list" where
  "ws_step options h Opened = (if liveSockets h = 0 then (h, []) else onopen h)"
| "ws_step options h Errored = (if liveSockets h = 0 then (h, []) else (h, [LogSocketError]))"
| "ws_step options h Closed =
    (if liveSockets h = 0 then (h, [])
     else onclose options (h\<lparr>liveSockets := liveSockets h - 1\<rparr>))"
| "ws_step options h (TimeoutFired thrown) =
    (if pendingTimeouts h = 0 then (h, [])
     else connect options thrown (h\<lparr>pendingTimeouts := pendingTimeouts h - 1\<rparr>))"

fun ws_run :: "UseWebSocketOptions \<Rightarrow> hook \<Rightarrow> ws_input list \<Rightarrow> hook \<times> ws_effect list" where
  "ws_run options h [] = (h, [])"
| "ws_run options h (i # ins) =
    (let (h1, e1) = ws_step options h i;
         (h2, e2) = ws_run options h1 ins
     in (h2, e1 @ e2))"

text \<open>The hook after the effect of lines 89-101 ran \<^verbatim>\<open>connect\<close> on mount.\<close>

definition mounted :: hook where
  "mounted = \<lparr>isConnected = False, reconnectAttempts = 0, wsRef = True,
              pendingTimeouts = 0, liveSockets = 1\<rparr>"

text \<open>The reconnections of a run (the runs of \<^verbatim>\<open>connect\<close>, whether or not the socket
  could be created), the delays of the timeouts it set, and \<open>n\<close> connections that fail
  one after the other.\<close>

fun reconnections :: "ws_effect list \<Rightarrow> nat" where
  "reconnections [] = 0"
| "reconnections (NewWebSocket u # es) = Suc (reconnections es)"
| "reconnections (LogCreateFailed e # es) = Suc (reconnections es)"
| "reconnections (_ # es) = reconnections es"

fun delays :: "ws_effect list \<Rightarrow> nat list" where
  "delays [] = []"
| "delays (SetTimeoutConnect d # es) = d # delays es"
| "delays (_ # es) = delays es"

fun failures :: "nat \<Rightarrow> ws_input list" where
  "failures 0 = []"
| "failures (Suc n) = Errored # Closed # TimeoutFired None # failures n"

section \<open>Concrete inputs\<close>

text \<open>
  A store whose handles are set; the configuration \<^verbatim>\<open>main\<close> builds (index.ts, lines
  17-36: the bounds start at 0 and 0), the same with the bounds of the seed document
  (180 and 200), and the same with a placeholder token.
\<close>

definition readyStore :: FirebaseManager where
  "readyStore = \<lparr>db = True, configRef = True\<rparr>"

definition startConfig :: PriceMonitorConfig where
  "startConfig =
    \<lparr> rpcUrl = ''https://api.mainnet-beta.solana.com'',
      poolAddress = ''HJPjoWUrhoZzkNfRpHuieeFk9WcZWjwy6PBjZ81ngndJ'',
      telegramBotToken = ''7312345678:AAHexample'',
      telegramChatId = ''-1001234567890'',
      checkIntervalMs = Num 60000,
      priceLowerBound = Num 0,
      priceUpperBound = Num 0 \<rparr>"

definition armedConfig :: PriceMonitorConfig where
  "armedConfig = startConfig\<lparr>priceLowerBound := Num 180, priceUpperBound := Num 200\<rparr>"

definition demoConfig :: PriceMonitorConfig where
  "demoConfig = armedConfig\<lparr>telegramBotToken := ''123456:ABC-DEF1234ghIkl''\<rparr>"

text \<open>The SDK with exact rational arithmetic in the place of \<^verbatim>\<open>Decimal\<close>: the price of a
  square root price \<open>s\<close> is \<open>(s / 2^64)\<^sup>2 * 10^(decimalsA - decimalsB)\<close>.\<close>

definition exactSdk :: "rat sdk" where
  "exactSdk =
    \<lparr> sqrtPriceX64ToPrice = (\<lambda>s a b. (of_nat s / 2 ^ 64)\<^sup>2 * 10 ^ a / 10 ^ b),
      invertPrice = reciprocalPrice,
      toNumber = Num \<rparr>"

text \<open>The SOL/USDC pool (token A is wrapped SOL, with 9 decimals; token B is USDC, with
  6), a channel that accepts the message and one that answers 404, and a poll in which
  the chain answers with the square root price \<open>2^63\<close>, which is the price 250.\<close>

definition solUsdc :: pool where
  "solUsdc =
    \<lparr> tokenAInfo = \<lparr>mint = ''So11111111111111111111111111111111111111112'', decimals = 9\<rparr>,
      tokenBInfo = \<lparr>mint = ''EPjFWdd5AufqSSqeM2qN1xzybapC8G4wEGGkZwyTDt1v'', decimals = 6\<rparr> \<rparr>"

definition accepted :: dispatch_env where
  "accepted =
    \<lparr> fetch = Inr \<lparr>status = 200, statusText = ''OK'', responseText = Inr ''ok''\<rparr>,
      snapshotsDuringSend = [],
      addResult = None \<rparr>"

definition notFound :: dispatch_env where
  "notFound =
    \<lparr> fetch = Inr \<lparr>status = 404, statusText = ''Not Found'', responseText = Inr ''Not Found''\<rparr>,
      snapshotsDuringSend = [],
      addResult = None \<rparr>"

definition quietTick :: tick_env where
  "quietTick =
    \<lparr> newPublicKey = (\<lambda>a. None),
      clientGetPool = (\<lambda>a. Inr solUsdc),
      fetcherGetPool = (\<lambda>a. Inr (Some 9223372036854775808)),
      snapshotsDuringFetch = [],
      dispatchEnv = accepted \<rparr>"

text \<open>A poll in which the first request fails, a channel that cannot be reached, and
  three documents of the store: the one the seeding script writes, one that only names
  another pool, and one that only carries a lower bound.\<close>

definition rpcDown :: tick_env where
  "rpcDown = quietTick\<lparr>clientGetPool := (\<lambda>a. Inl (Error ''503 Service Unavailable''))\<rparr>"

definition unreachable :: dispatch_env where
  "unreachable =
    \<lparr> fetch = Inl (Error ''ECONNRESET''),
      snapshotsDuringSend = [],
      addResult = None \<rparr>"


definition poolSwitch :: MonitorConfig where
  "poolSwitch =
    \<lparr> opt_priceLowerBound = None,
      opt_priceUpperBound = None,
      opt_poolAddress = Some ''Czfq3xZZDmsdGdUyrNLtRhGc47cXcZtLG4crryfu44zE'' \<rparr>"

definition lowerOnly :: MonitorConfig where
  "lowerOnly =
    \<lparr> opt_priceLowerBound = Some (Num 150),
      opt_priceUpperBound = None,
      opt_poolAddress = None \<rparr>"

text \<open>A store that was not initialised, a poll whose address is not a key, a channel
  that answers 500, and a document that only carries an upper bound.\<close>

definition noStore :: FirebaseManager where
  "noStore = \<lparr>db = False, configRef = False\<rparr>"

definition badKey :: tick_env where
  "badKey = quietTick\<lparr>newPublicKey := (\<lambda>a. Some (Error ''Invalid public key input''))\<rparr>"

definition serverError :: dispatch_env where
  "serverError =
    \<lparr> fetch = Inr \<lparr>status = 500, statusText = ''Internal Server Error'',
                    responseText = Inr ''try again''\<rparr>,
      snapshotsDuringSend = [],
      addResult = None \<rparr>"

definition upperOnly :: MonitorConfig where
  "upperOnly =
    \<lparr> opt_priceLowerBound = None,
      opt_priceUpperBound = Some (Num 260),
      opt_poolAddress = None \<rparr>"

text \<open>The hook without options, and with a cap of two attempts half a second apart.\<close>

definition noOptions :: UseWebSocketOptions where
  "noOptions = \<lparr>url = None, reconnectDelay = None, maxReconnectAttempts = None\<rparr>"

definition twoAttempts :: UseWebSocketOptions where
  "twoAttempts = \<lparr>url = None, reconnectDelay = Some 500, maxReconnectAttempts = Some 2\<rparr>"

section \<open>Last write wins\<close>




section \<open>Basic facts\<close>

lemma configCallback_poolAddress:
  "poolAddress (fst (configCallback config u)) =
     (case opt_poolAddress u of Some a \<Rightarrow> if a \<noteq> [] then a else poolAddress config | None \<Rightarrow> poolAddress config)"
  by (simp add: configCallback_def split: option.splits)

lemma configCallback_priceLowerBound:
  "priceLowerBound (fst (configCallback config u)) =
     (case opt_priceLowerBound u of Some l \<Rightarrow> l | None \<Rightarrow> priceLowerBound config)"
  by (simp add: configCallback_def split: option.splits)

lemma configCallback_priceUpperBound:
  "priceUpperBound (fst (configCallback config u)) =
     (case opt_priceUpperBound u of Some l \<Rightarrow> l | None \<Rightarrow> priceUpperBound config)"
  by (simp add: configCallback_def split: option.splits)

lemma configCallback_frame:
  "rpcUrl (fst (configCallback config u)) = rpcUrl config"
  "telegramBotToken (fst (configCallback config u)) = telegramBotToken config"
  "telegramChatId (fst (configCallback config u)) = telegramChatId config"
  "checkIntervalMs (fst (configCallback config u)) = checkIntervalMs config"
  by (simp_all add: configCallback_def split: option.splits)

lemma onSnapshot_Some: "fst (onSnapshot config (Some u)) = fst (configCallback config u)"
  by (simp add: onSnapshot_def split: prod.splits)

lemma onSnapshot_None: "fst (onSnapshot config None) = config"
  by (simp add: onSnapshot_def)

lemma deliver_null: "\<not> db fm \<or> \<not> configRef fm \<Longrightarrow> deliver fm config docs = (config, [])"
  by (cases docs) auto

lemma deliver_append:
  "fst (deliver fm config (xs @ ys)) = fst (deliver fm (fst (deliver fm config xs)) ys)"
proof (cases "db fm \<and> configRef fm")
  case True
  then show ?thesis
    by (induction xs arbitrary: config) (simp_all add: case_prod_beta)
next
  case False
  then show ?thesis by (auto simp: deliver_null)
qed

lemma deliver_single:
  "db fm \<Longrightarrow> configRef fm \<Longrightarrow> fst (deliver fm config [doc]) = fst (onSnapshot config doc)"
  by (simp add: case_prod_beta)

lemma queried_append: "queried (xs @ ys) = queried xs @ queried ys"
  by (induction xs rule: queried.induct) simp_all

lemma dispatches_append: "dispatches (xs @ ys) = dispatches xs @ dispatches ys"
  by (induction xs rule: dispatches.induct) simp_all

lemma posts_append: "posts (xs @ ys) = posts xs @ posts ys"
  by (induction xs rule: posts.induct) simp_all

lemma alertRecords_append: "alertRecords (xs @ ys) = alertRecords xs @ alertRecords ys"
  by (induction xs rule: alertRecords.induct) simp_all

lemma configCallback_silent:
  "queried (snd (configCallback config u)) = []"
  "dispatches (snd (configCallback config u)) = []"
  "posts (snd (configCallback config u)) = []"
  "alertRecords (snd (configCallback config u)) = []"
  by (simp_all add: configCallback_def case_prod_beta split: option.splits)

lemma onSnapshot_silent:
  "queried (snd (onSnapshot config doc)) = []"
  "dispatches (snd (onSnapshot config doc)) = []"
  "posts (snd (onSnapshot config doc)) = []"
  "alertRecords (snd (onSnapshot config doc)) = []"
  by (cases doc; simp add: onSnapshot_def configCallback_silent case_prod_beta)+

lemma deliver_silent:
  "queried (snd (deliver fm config docs)) = []"
  "dispatches (snd (deliver fm config docs)) = []"
  "posts (snd (deliver fm config docs)) = []"
  "alertRecords (snd (deliver fm config docs)) = []"
  by (induction docs arbitrary: config;
      simp add: case_prod_beta onSnapshot_silent queried_append dispatches_append
        posts_append alertRecords_append)+

lemma logAlert_silent:
  "queried (logAlert fm r added) = []"
  "dispatches (logAlert fm r added) = []"
  "posts (logAlert fm r added) = []"
  by (simp_all add: logAlert_def split: option.splits)

lemma alertRecords_logAlert:
  "alertRecords (logAlert fm r added) = (if db fm \<and> added = None then [r] else [])"
  by (simp add: logAlert_def split: option.splits)

lemma str_includes_iff: "str_includes s t \<longleftrightarrow> (\<exists>ps ss. s = ps @ t @ ss)"
proof (induction s)
  case Nil
  then show ?case by auto
next
  case (Cons c cs)
  show ?case
  proof
    assume "str_includes (c # cs) t"
    then consider "prefix t (c # cs)" | "str_includes cs t" by auto
    then show "\<exists>ps ss. c # cs = ps @ t @ ss"
    proof cases
      case 1
      then obtain ss where "c # cs = t @ ss" by (auto simp: prefix_def)
      then have "c # cs = [] @ t @ ss" by simp
      then show ?thesis by blast
    next
      case 2
      with Cons obtain ps ss where "cs = ps @ t @ ss" by blast
      then have "c # cs = (c # ps) @ t @ ss" by simp
      then show ?thesis by blast
    qed
  next
    assume "\<exists>ps ss. c # cs = ps @ t @ ss"
    then obtain ps ss where eq: "c # cs = ps @ t @ ss" by blast
    show "str_includes (c # cs) t"
    proof (cases ps)
      case Nil
      with eq have "prefix t (c # cs)" by (simp add: prefix_def)
      then show ?thesis by simp
    next
      case (Cons p ps')
      with eq have "cs = ps' @ t @ ss" by simp
      with Cons.IH have "str_includes cs t" by blast
      then show ?thesis by simp
    qed
  qed
qed

lemma sendTelegramAlert_returns:
  "snd (snd (sendTelegramAlert fm config price isTest env)) = Inr ()"
  by (simp add: sendTelegramAlert_def Let_def split: prod.splits sum.splits)

lemma sendTelegramAlert_placeholder:
  "isPlaceholderToken (telegramBotToken config) \<Longrightarrow>
   sendTelegramAlert fm config price isTest env =
     (config,
      [Dispatch price isTest, Console MockRuler, Console MockTelegramAlert,
       Console (AlertText (alertMessage config price isTest)), Console MockRuler],
      Inr ())"
  by (simp add: sendTelegramAlert_def Let_def)

lemma sendTelegramAlert_real:
  assumes "\<not> isPlaceholderToken (telegramBotToken config)"
  shows "sendTelegramAlert fm config price isTest env =
     (let T = sendTelegramAlert_try fm config price isTest (alertMessage config price isTest)
                (sendMessageUrl config) env
      in (fst T,
          Dispatch price isTest # fst (snd T) @
            (case snd (snd T) of Inl e \<Rightarrow> [Console (ErrorSendingRequest e)] | Inr u \<Rightarrow> []),
          Inr ()))"
proof -
  obtain c es r where T: "sendTelegramAlert_try fm config price isTest
      (alertMessage config price isTest) (sendMessageUrl config) env = (c, es, r)"
    by (metis prod_cases3)
  show ?thesis
    using assms by (cases r) (simp_all add: sendTelegramAlert_def Let_def T)
qed

lemma sendTelegramAlert_try_silent:
  "dispatches (fst (snd (sendTelegramAlert_try fm config price isTest m u env))) = []"
  "queried (fst (snd (sendTelegramAlert_try fm config price isTest m u env))) = []"
  by (simp_all add: sendTelegramAlert_try_def Let_def case_prod_beta dispatches_append queried_append
        deliver_silent logAlert_silent split: sum.splits)

lemma sendTelegramAlert_dispatches:
  "dispatches (fst (snd (sendTelegramAlert fm config price isTest env))) = [(price, isTest)]"
  by (cases "isPlaceholderToken (telegramBotToken config)")
     (simp_all add: sendTelegramAlert_placeholder sendTelegramAlert_real Let_def dispatches_append
        sendTelegramAlert_try_silent split: sum.splits)


lemma sendTelegramAlert_try_response:
  assumes "fetch env = Inr r" and "ok r \<or> status r = 404 \<or> responseText r = Inr t"
  shows "sendTelegramAlert_try fm config price isTest m u env =
    (fst (deliver fm config (snapshotsDuringSend env)),
     HttpPost u (telegramChatId config) m # snd (deliver fm config (snapshotsDuringSend env)) @
       (if ok r then [Console SentSuccessfully]
        else if status r = 404 then [Console Failed404, Console FallingBack, Console (AlertText m)]
        else [Console (FailedToSend (status r) (statusText r) t)]) @
       (if \<not> isTest
        then logAlert fm
               \<lparr> alert_poolAddress = poolAddress (fst (deliver fm config (snapshotsDuringSend env))),
                 alert_price = price,
                 alert_lowerBound = priceLowerBound (fst (deliver fm config (snapshotsDuringSend env))),
                 alert_upperBound = priceUpperBound (fst (deliver fm config (snapshotsDuringSend env))),
                 alert_message = m,
                 alert_telegramStatus = (if ok r then success else failed) \<rparr>
               (addResult env)
        else []),
     Inr ())"
  using assms by (auto simp: sendTelegramAlert_try_def Let_def case_prod_beta)

lemma fetchPrice_requests:
  "snd (fetchPrice sdk env a) = Inr (p, q) \<Longrightarrow> fst (fetchPrice sdk env a) = [ClientGetPool a, FetcherGetPool a]"
  by (auto simp: fetchPrice_def Let_def split: sum.splits option.splits)


lemma checkPrice_try_invalid_key:
  "newPublicKey env (poolAddress config) = Some e \<Longrightarrow> checkPrice_try sdk fm config env = (config, [], Inl e)"
  by (simp add: checkPrice_try_def)

lemma checkPrice_try_failed:
  assumes "newPublicKey env (poolAddress config) = None"
    and "snd (fetchPrice sdk env (poolAddress config)) = Inl e"
  shows "checkPrice_try sdk fm config env =
    (fst (deliver fm config (snapshotsDuringFetch env)),
     fst (fetchPrice sdk env (poolAddress config)) @ snd (deliver fm config (snapshotsDuringFetch env)),
     Inl e)"
  using assms by (simp add: checkPrice_try_def Let_def case_prod_beta)

lemma checkPrice_try_observed:
  assumes "newPublicKey env (poolAddress config) = None"
    and "snd (fetchPrice sdk env (poolAddress config)) = Inr (p, q)"
  shows "checkPrice_try sdk fm config env =
    (let config1 = fst (deliver fm config (snapshotsDuringFetch env));
         shown = [ClientGetPool (poolAddress config), FetcherGetPool (poolAddress config)] @
                 snd (deliver fm config (snapshotsDuringFetch env)) @ [Console (CurrentPrice p q)]
     in if js_strict_eq (priceLowerBound config1) (Num 0) \<and> js_strict_eq (priceUpperBound config1) (Num 0)
        then (config1, shown @ [Console (WaitingForConfiguration p)], Inr ())
        else if js_lt p (priceLowerBound config1) \<or> js_gt p (priceUpperBound config1)
        then (fst (sendTelegramAlert fm config1 p False (dispatchEnv env)),
              shown @ [Console PriceOutOfBounds] @
                fst (snd (sendTelegramAlert fm config1 p False (dispatchEnv env))),
              Inr ())
        else (config1, shown, Inr ()))"
  using assms fetchPrice_requests[OF assms(2)]
    sendTelegramAlert_returns[of fm "fst (deliver fm config (snapshotsDuringFetch env))" p False "dispatchEnv env"]
  by (simp add: checkPrice_try_def Let_def case_prod_beta)

lemma checkPrice_try_returns_unit:
  "snd (snd (checkPrice_try sdk fm config env)) = Inr u \<Longrightarrow>
   checkPrice sdk fm config env = checkPrice_try sdk fm config env"
  by (cases "checkPrice_try sdk fm config env") (simp add: checkPrice_def)

lemma checkPrice_caught:
  "snd (snd (checkPrice_try sdk fm config env)) = Inl e \<Longrightarrow>
   checkPrice sdk fm config env =
     (fst (checkPrice_try sdk fm config env),
      fst (snd (checkPrice_try sdk fm config env)) @ [Console (ErrorCheckingPrice e)], Inr ())"
  by (cases "checkPrice_try sdk fm config env") (simp add: checkPrice_def)

lemma checkPrice_returns: "snd (snd (checkPrice sdk fm config env)) = Inr ()"
  by (simp add: checkPrice_def split: prod.splits sum.splits)

lemma watchLoop_returns: "snd (snd (watchLoop sdk fm config ins)) = Inr ()"
proof (induction ins arbitrary: config)
  case Nil
  then show ?case by simp
next
  case (Cons i ins)
  show ?case
  proof (cases i)
    case (Snapshot doc)
    with Cons show ?thesis by (simp add: case_prod_beta)
  next
    case (Tick env)
    obtain c es r where cp: "checkPrice sdk fm config env = (c, es, r)" by (metis prod_cases3)
    with checkPrice_returns[of sdk fm config env] have "r = Inr ()" by simp
    with Cons cp Tick show ?thesis by (simp add: case_prod_beta)
  qed
qed

lemma watchLoop_Tick:
  "watchLoop sdk fm config (Tick env # ins) =
    (fst (watchLoop sdk fm (fst (checkPrice sdk fm config env)) ins),
     fst (snd (checkPrice sdk fm config env)) @
       fst (snd (watchLoop sdk fm (fst (checkPrice sdk fm config env)) ins)),
     Inr ())"
proof -
  obtain c es r where cp: "checkPrice sdk fm config env = (c, es, r)" by (metis prod_cases3)
  with checkPrice_returns[of sdk fm config env] have "r = Inr ()" by simp
  with cp watchLoop_returns[of sdk fm c ins] show ?thesis by (simp add: case_prod_beta)
qed

lemma watchLoop_Snapshot:
  "watchLoop sdk fm config (Snapshot doc # ins) =
    (fst (watchLoop sdk fm (fst (deliver fm config [doc])) ins),
     snd (deliver fm config [doc]) @ fst (snd (watchLoop sdk fm (fst (deliver fm config [doc])) ins)),
     Inr ())"
  using watchLoop_returns[of sdk fm "fst (deliver fm config [doc])" ins]
  by (simp add: case_prod_beta del: deliver.simps)

lemma watchLoop_append:
  "watchLoop sdk fm config (xs @ ys) =
    (fst (watchLoop sdk fm (fst (watchLoop sdk fm config xs)) ys),
     fst (snd (watchLoop sdk fm config xs)) @ fst (snd (watchLoop sdk fm (fst (watchLoop sdk fm config xs)) ys)),
     Inr ())"
proof (induction xs arbitrary: config)
  case Nil
  show ?case using watchLoop_returns[of sdk fm config ys] by (simp add: prod_eq_iff)
next
  case (Cons i xs)
  show ?case
  proof (cases i)
    case (Snapshot doc)
    show ?thesis
      unfolding Snapshot append_Cons watchLoop_Snapshot
      by (simp add: Cons.IH del: deliver.simps)
  next
    case (Tick env)
    show ?thesis
      unfolding Tick append_Cons watchLoop_Tick
      by (simp add: Cons.IH)
  qed
qed


lemma quietTick_price:
  "snd (fetchPrice exactSdk quietTick a) = Inr (Num 250, False)"
  by (simp add: fetchPrice_def quietTick_def exactSdk_def solUsdc_def orientPrice_def
        isQuoteToken_def startsWith_def Let_def power2_eq_square)

lemma js_le_not_lt: "js_le x y \<Longrightarrow> \<not> js_lt y x"
  by (cases x; cases y; auto simp: js_le_def js_strict_eq_def)

lemma demoConfig_placeholder: "isPlaceholderToken (telegramBotToken demoConfig)"
  by (simp add: demoConfig_def isPlaceholderToken_def)

lemma armedConfig_real: "\<not> isPlaceholderToken (telegramBotToken armedConfig)"
  by (simp add: armedConfig_def startConfig_def isPlaceholderToken_def)

lemma sendTelegramAlert_response:
  assumes "\<not> isPlaceholderToken (telegramBotToken config)"
    and "fetch env = Inr r" and "ok r \<or> status r = 404 \<or> responseText r = Inr t"
  shows "sendTelegramAlert fm config price isTest env =
    (fst (deliver fm config (snapshotsDuringSend env)),
     Dispatch price isTest #
     HttpPost (sendMessageUrl config) (telegramChatId config) (alertMessage config price isTest) #
       snd (deliver fm config (snapshotsDuringSend env)) @
       (if ok r then [Console SentSuccessfully]
        else if status r = 404
             then [Console Failed404, Console FallingBack, Console (AlertText (alertMessage config price isTest))]
             else [Console (FailedToSend (status r) (statusText r) t)]) @
       (if \<not> isTest
        then logAlert fm
               \<lparr> alert_poolAddress = poolAddress (fst (deliver fm config (snapshotsDuringSend env))),
                 alert_price = price,
                 alert_lowerBound = priceLowerBound (fst (deliver fm config (snapshotsDuringSend env))),
                 alert_upperBound = priceUpperBound (fst (deliver fm config (snapshotsDuringSend env))),
                 alert_message = alertMessage config price isTest,
                 alert_telegramStatus = (if ok r then success else failed) \<rparr>
               (addResult env)
        else []),
     Inr ())"
  unfolding sendTelegramAlert_real[OF assms(1)] Let_def
    sendTelegramAlert_try_response[OF assms(2,3)]
  by simp

lemma sendTelegramAlert_try_test_records:
  "alertRecords (fst (snd (sendTelegramAlert_try fm config price True m u env))) = []"
  by (simp add: sendTelegramAlert_try_def Let_def case_prod_beta alertRecords_append
        deliver_silent split: sum.splits)

lemma sendTelegramAlert_try_records_unwritten:
  "\<not> db fm \<or> addResult env \<noteq> None \<Longrightarrow>
   alertRecords (fst (snd (sendTelegramAlert_try fm config price isTest m u env))) = []"
  by (auto simp: sendTelegramAlert_try_def Let_def case_prod_beta alertRecords_append
        deliver_silent alertRecords_logAlert split: sum.splits)

lemma sendTelegramAlert_records_via_try:
  "\<not> isPlaceholderToken (telegramBotToken config) \<Longrightarrow>
   alertRecords (fst (snd (sendTelegramAlert fm config price isTest env))) =
   alertRecords (fst (snd (sendTelegramAlert_try fm config price isTest
      (alertMessage config price isTest) (sendMessageUrl config) env)))"
  by (simp add: sendTelegramAlert_real Let_def alertRecords_append split: sum.splits)

lemma sendTelegramAlert_rejected:
  assumes "\<not> isPlaceholderToken (telegramBotToken config)" and "fetch env = Inl e"
  shows "sendTelegramAlert fm config price isTest env =
    (fst (deliver fm config (snapshotsDuringSend env)),
     Dispatch price isTest #
     HttpPost (sendMessageUrl config) (telegramChatId config) (alertMessage config price isTest) #
       snd (deliver fm config (snapshotsDuringSend env)) @ [Console (ErrorSendingRequest e)],
     Inr ())"
  unfolding sendTelegramAlert_real[OF assms(1)]
  using assms(2) by (simp add: sendTelegramAlert_try_def Let_def case_prod_beta)

lemma sendTelegramAlert_unreadable:
  assumes "\<not> isPlaceholderToken (telegramBotToken config)" and "fetch env = Inr r"
    and "\<not> ok r" and "status r \<noteq> 404" and "responseText r = Inl e"
  shows "sendTelegramAlert fm config price isTest env =
    (fst (deliver fm config (snapshotsDuringSend env)),
     Dispatch price isTest #
     HttpPost (sendMessageUrl config) (telegramChatId config) (alertMessage config price isTest) #
       snd (deliver fm config (snapshotsDuringSend env)) @ [Console (ErrorSendingRequest e)],
     Inr ())"
  unfolding sendTelegramAlert_real[OF assms(1)]
  using assms(2-) by (simp add: sendTelegramAlert_try_def Let_def case_prod_beta)

lemma armedConfig_fields:
  "poolAddress armedConfig = ''HJPjoWUrhoZzkNfRpHuieeFk9WcZWjwy6PBjZ81ngndJ''"
  "priceLowerBound armedConfig = Num 180"
  "priceUpperBound armedConfig = Num 200"
  by (simp_all add: armedConfig_def startConfig_def)

lemma quietTick_fields:
  "newPublicKey quietTick a = None"
  "snapshotsDuringFetch quietTick = []"
  "dispatchEnv quietTick = accepted"
  by (simp_all add: quietTick_def)

lemma rpcDown_fields:
  "newPublicKey rpcDown a = None"
  "snapshotsDuringFetch rpcDown = []"
  "snd (fetchPrice sdk rpcDown a) = Inl (Error ''503 Service Unavailable'')"
  "fst (fetchPrice sdk rpcDown a) = [ClientGetPool a]"
  by (simp_all add: rpcDown_def quietTick_def fetchPrice_def)

lemma rpcDown_poll:
  "checkPrice exactSdk readyStore armedConfig rpcDown =
     (armedConfig,
      [ClientGetPool ''HJPjoWUrhoZzkNfRpHuieeFk9WcZWjwy6PBjZ81ngndJ'',
       Console (ErrorCheckingPrice (Error ''503 Service Unavailable''))],
      Inr ())"
  using checkPrice_caught[of exactSdk readyStore armedConfig rpcDown "Error ''503 Service Unavailable''"]
    checkPrice_try_failed[of rpcDown armedConfig exactSdk "Error ''503 Service Unavailable''" readyStore]
  by (simp add: rpcDown_fields armedConfig_fields)

lemma quietTick_alerts:
  "dispatches (fst (snd (checkPrice exactSdk readyStore armedConfig quietTick))) = [(Num 250, False)]"
proof -
  have "snd (snd (checkPrice_try exactSdk readyStore armedConfig quietTick)) = Inr ()"
    using checkPrice_try_observed[of quietTick armedConfig exactSdk "Num 250" False readyStore]
    by (simp add: quietTick_fields quietTick_price Let_def)
  then have "checkPrice exactSdk readyStore armedConfig quietTick =
      checkPrice_try exactSdk readyStore armedConfig quietTick"
    by (rule checkPrice_try_returns_unit)
  then show ?thesis
    using checkPrice_try_observed[of quietTick armedConfig exactSdk "Num 250" False readyStore]
    by (simp add: quietTick_fields quietTick_price Let_def armedConfig_fields js_strict_eq_def
          js_gt_def dispatches_append sendTelegramAlert_dispatches)
qed

lemma badKey_fields:
  "newPublicKey badKey a = Some (Error ''Invalid public key input'')"
  by (simp add: badKey_def quietTick_def)

lemma serverError_fields:
  "fetch serverError =
     Inr \<lparr>status = 500, statusText = ''Internal Server Error'', responseText = Inr ''try again''\<rparr>"
  by (simp add: serverError_def)

lemma deliver_last:
  assumes "db fm" and "configRef fm"
  shows "fst (deliver fm config (docs @ [Some u])) =
         fst (configCallback (fst (deliver fm config docs)) u)"
  using assms by (simp add: deliver_append deliver_single onSnapshot_Some del: deliver.simps)




lemma ws_run_Cons:
  "ws_run options h (i # ins) =
    (fst (ws_run options (fst (ws_step options h i)) ins),
     snd (ws_step options h i) @ snd (ws_run options (fst (ws_step options h i)) ins))"
  by (simp add: case_prod_beta)

lemma reconnections_append: "reconnections (xs @ ys) = reconnections xs + reconnections ys"
  by (induction xs rule: reconnections.induct) simp_all

lemma delays_append: "delays (xs @ ys) = delays xs @ delays ys"
  by (induction xs rule: delays.induct) simp_all

lemma onclose_below_cap:
  "reconnectAttempts h < maxReconnectAttempts_of options \<Longrightarrow>
   onclose options h =
     (h\<lparr>isConnected := False, reconnectAttempts := reconnectAttempts h + 1,
        pendingTimeouts := pendingTimeouts h + 1\<rparr>,
      [LogDisconnected, OnDisconnect,
       LogReconnecting (reconnectAttempts h + 1) (maxReconnectAttempts_of options),
       SetTimeoutConnect (reconnectDelay_of options)])"
  by (simp add: onclose_def Let_def)

lemma onclose_at_cap:
  "maxReconnectAttempts_of options \<le> reconnectAttempts h \<Longrightarrow>
   onclose options h = (h\<lparr>isConnected := False\<rparr>, [LogDisconnected, OnDisconnect])"
  by (simp add: onclose_def Let_def)

lemma connect_effects:
  "reconnections (snd (connect options thrown h)) = 1"
  "delays (snd (connect options thrown h)) = []"
  by (simp_all add: connect_def Let_def reconnections_append delays_append split: option.splits)

lemma connect_state:
  "reconnectAttempts (fst (connect options thrown h)) = reconnectAttempts h"
  "pendingTimeouts (fst (connect options thrown h)) = pendingTimeouts h"
  "isConnected (fst (connect options thrown h)) = isConnected h"
  "liveSockets (fst (connect options thrown h)) = (if thrown = None then liveSockets h + 1 else liveSockets h)"
  by (simp_all add: connect_def Let_def split: option.splits)

lemma ws_step_delays:
  "delays (snd (ws_step options h i)) =
     (if i = Closed \<and> liveSockets h \<noteq> 0 \<and> reconnectAttempts h < maxReconnectAttempts_of options
      then [reconnectDelay_of options] else [])"
  by (cases i) (simp_all add: onopen_def onclose_def Let_def connect_effects)

lemma ws_step_attempts:
  "i \<noteq> Opened \<Longrightarrow>
   reconnectAttempts (fst (ws_step options h i)) =
     (if i = Closed \<and> liveSockets h \<noteq> 0 \<and> reconnectAttempts h < maxReconnectAttempts_of options
      then reconnectAttempts h + 1 else reconnectAttempts h)"
  by (cases i) (simp_all add: onclose_def Let_def connect_state)

lemma ws_step_timeouts:
  "reconnections (snd (ws_step options h i)) + pendingTimeouts (fst (ws_step options h i)) \<le>
   pendingTimeouts h + length (delays (snd (ws_step options h i)))"
  by (cases i) (auto simp: onopen_def onclose_def Let_def connect_effects connect_state)

lemma ws_run_delays: "set (delays (snd (ws_run options h ins))) \<subseteq> {reconnectDelay_of options}"
proof (induction ins arbitrary: h)
  case Nil
  then show ?case by simp
next
  case (Cons i ins)
  show ?case
    unfolding ws_run_Cons using Cons[of "fst (ws_step options h i)"]
    by (auto simp: delays_append ws_step_delays)
qed

lemma ws_run_timeouts_capped:
  "Opened \<notin> set ins \<Longrightarrow>
   length (delays (snd (ws_run options h ins))) \<le> maxReconnectAttempts_of options - reconnectAttempts h"
proof (induction ins arbitrary: h)
  case Nil
  then show ?case by simp
next
  case (Cons i ins)
  then have i: "i \<noteq> Opened" and rest: "Opened \<notin> set ins" by auto
  show ?case
    unfolding ws_run_Cons using Cons.IH[OF rest, of "fst (ws_step options h i)"]
    by (auto simp: delays_append ws_step_delays ws_step_attempts[OF i])
qed

lemma ws_run_reconnections_timeouts:
  "reconnections (snd (ws_run options h ins)) + pendingTimeouts (fst (ws_run options h ins)) \<le>
   pendingTimeouts h + length (delays (snd (ws_run options h ins)))"
proof (induction ins arbitrary: h)
  case Nil
  then show ?case by simp
next
  case (Cons i ins)
  show ?case
    unfolding ws_run_Cons
    using Cons[of "fst (ws_step options h i)"] ws_step_timeouts[of options h i]
    by (simp add: delays_append reconnections_append)
qed

lemma ws_run_reconnections_capped:
  assumes "Opened \<notin> set ins"
  shows "reconnections (snd (ws_run options h ins)) \<le>
         pendingTimeouts h + (maxReconnectAttempts_of options - reconnectAttempts h)"
  using ws_run_reconnections_timeouts[of options h ins] ws_run_timeouts_capped[OF assms, of options h]
  by linarith

lemma failures_when_given_up:
  "liveSockets h = 0 \<Longrightarrow> pendingTimeouts h = 0 \<Longrightarrow> ws_run options h (failures n) = (h, [])"
  by (induction n) (simp_all add: case_prod_beta)

lemma failures_reconnections:
  assumes "liveSockets h = 1" and "pendingTimeouts h = 0"
    and "reconnectAttempts h \<le> maxReconnectAttempts_of options"
  shows "reconnections (snd (ws_run options h (failures n))) =
         min n (maxReconnectAttempts_of options - reconnectAttempts h)"
  using assms
proof (induction n arbitrary: h)
  case 0
  then show ?case by simp
next
  case (Suc n)
  let ?closed = "h\<lparr>liveSockets := 0\<rparr>"
  show ?case
  proof (cases "reconnectAttempts h < maxReconnectAttempts_of options")
    case True
    let ?next = "fst (connect options None
        (fst (onclose options ?closed)\<lparr>pendingTimeouts := 0\<rparr>))"
    have step: "ws_run options h (failures (Suc n)) =
        (fst (ws_run options ?next (failures n)),
         LogSocketError # snd (onclose options ?closed) @
           snd (connect options None (fst (onclose options ?closed)\<lparr>pendingTimeouts := 0\<rparr>)) @
           snd (ws_run options ?next (failures n)))"
      using Suc.prems True by (simp add: case_prod_beta onclose_below_cap)
    have next_state: "liveSockets ?next = 1" "pendingTimeouts ?next = 0"
        "reconnectAttempts ?next = reconnectAttempts h + 1"
      using True by (simp_all add: connect_state onclose_below_cap)
    have "reconnections (snd (ws_run options ?next (failures n))) =
        min n (maxReconnectAttempts_of options - reconnectAttempts ?next)"
      using True by (intro Suc.IH next_state(1,2)) (simp add: next_state(3))
    then have later: "reconnections (snd (ws_run options ?next (failures n))) =
        min n (maxReconnectAttempts_of options - (reconnectAttempts h + 1))"
      by (simp only: next_state(3))
    have "reconnections (snd (ws_run options h (failures (Suc n)))) =
        1 + reconnections (snd (ws_run options ?next (failures n)))"
      unfolding step using True
      by (simp add: reconnections_append connect_effects onclose_below_cap)
    with later True show ?thesis
      by arith
  next
    case False
    with Suc.prems have cap: "maxReconnectAttempts_of options \<le> reconnectAttempts h" by simp
    have given_up: "ws_run options (?closed\<lparr>isConnected := False\<rparr>) (failures n) =
        (?closed\<lparr>isConnected := False\<rparr>, [])"
      using Suc.prems by (intro failures_when_given_up) simp_all
    have "ws_run options h (failures (Suc n)) =
        (fst (ws_run options (?closed\<lparr>isConnected := False\<rparr>) (failures n)),
         LogSocketError # LogDisconnected # OnDisconnect #
           snd (ws_run options (?closed\<lparr>isConnected := False\<rparr>) (failures n)))"
      using Suc.prems cap by (simp add: case_prod_beta onclose_at_cap)
    then have "reconnections (snd (ws_run options h (failures (Suc n)))) = 0"
      unfolding given_up by simp
    with cap show ?thesis
      by simp
  qed
qed

lemma failures_disconnected:
  "\<not> isConnected h \<Longrightarrow> \<not> isConnected (fst (ws_run options h (failures n)))"
proof (induction n arbitrary: h)
  case 0
  then show ?case by simp
next
  case (Suc n)
  have "\<not> isConnected (fst (ws_step options (fst (ws_step options (fst (ws_step options h Errored)) Closed))
      (TimeoutFired None)))"
    using Suc.prems by (simp add: onclose_def Let_def connect_state)
  from Suc.IH[OF this] show ?case
    by (simp add: case_prod_beta del: ws_step.simps)
qed








section \<open>The claims\<close>

text \<open>
  Claim C1. In a poll that observes the price \<open>p\<close> while the bounds are not the pair
  (0, 0), \<^verbatim>\<open>sendTelegramAlert\<close> is called exactly once, with \<open>p\<close>, when \<open>p\<close> is below the
  lower bound or above the upper bound, and is not called when \<open>p\<close> lies between the
  bounds, the bounds included. The bounds are those the poll compares with: the
  configuration after the snapshots that arrived while the price was fetched.
\<close>

theorem C1_dispatch_iff_out_of_bounds:
  fixes sdk :: "'d sdk" and fm config env
  defines "config1 \<equiv> fst (deliver fm config (snapshotsDuringFetch env))"
  defines "sent \<equiv> dispatches (fst (snd (checkPrice sdk fm config env)))"
  assumes key: "newPublicKey env (poolAddress config) = None"
    and observed: "snd (fetchPrice sdk env (poolAddress config)) = Inr (p, q)"
    and armed: "\<not> (js_strict_eq (priceLowerBound config1) (Num 0) \<and> js_strict_eq (priceUpperBound config1) (Num 0))"
  shows "(js_lt p (priceLowerBound config1) \<or> js_gt p (priceUpperBound config1) \<longrightarrow> sent = [(p, False)])
       \<and> (js_le (priceLowerBound config1) p \<and> js_le p (priceUpperBound config1) \<longrightarrow> sent = [])
       \<and> (sent = [] \<or> sent = [(p, False)])"
proof -
  have ran: "snd (snd (checkPrice_try sdk fm config env)) = Inr ()"
    using checkPrice_try_observed[OF key observed, of fm] by (simp add: Let_def)
  have same: "checkPrice sdk fm config env = checkPrice_try sdk fm config env"
    by (rule checkPrice_try_returns_unit[OF ran])
  have out: "sent = [(p, False)]"
    if "js_lt p (priceLowerBound config1) \<or> js_gt p (priceUpperBound config1)"
    using that armed checkPrice_try_observed[OF key observed, of fm]
    unfolding sent_def same config1_def
    by (simp add: Let_def dispatches_append deliver_silent sendTelegramAlert_dispatches)
  have inside: "sent = []"
    if "\<not> (js_lt p (priceLowerBound config1) \<or> js_gt p (priceUpperBound config1))"
    using that armed checkPrice_try_observed[OF key observed, of fm]
    unfolding sent_def same config1_def
    by (simp add: Let_def dispatches_append deliver_silent)
  have "\<not> (js_lt p (priceLowerBound config1) \<or> js_gt p (priceUpperBound config1))"
    if "js_le (priceLowerBound config1) p \<and> js_le p (priceUpperBound config1)"
    using that js_le_not_lt by (auto simp: js_gt_def)
  with out inside show ?thesis by blast
qed

text \<open>The SOL/USDC poll at the price 250: one alert with the bounds 180 and 200, none
  with the bounds 180 and 300.\<close>

theorem C1_witness:
  "newPublicKey quietTick (poolAddress armedConfig) = None
   \<and> snd (fetchPrice exactSdk quietTick (poolAddress armedConfig)) = Inr (Num 250, False)
   \<and> js_gt (Num 250) (Num 200)
   \<and> dispatches (fst (snd (checkPrice exactSdk readyStore armedConfig quietTick))) = [(Num 250, False)]
   \<and> js_le (Num 180) (Num 250) \<and> js_le (Num 250) (Num 300)
   \<and> dispatches (fst (snd (checkPrice exactSdk readyStore (armedConfig\<lparr>priceUpperBound := Num 300\<rparr>) quietTick))) = []"
proof -
  have key: "newPublicKey quietTick (poolAddress c) = None" for c :: PriceMonitorConfig
    by (simp add: quietTick_def)
  have none: "snapshotsDuringFetch quietTick = []"
    by (simp add: quietTick_def)
  have armed: "\<not> (js_strict_eq (priceLowerBound (fst (deliver readyStore armedConfig (snapshotsDuringFetch quietTick)))) (Num 0)
      \<and> js_strict_eq (priceUpperBound (fst (deliver readyStore armedConfig (snapshotsDuringFetch quietTick)))) (Num 0))"
    by (simp add: none armedConfig_def js_strict_eq_def)
  have armed': "\<not> (js_strict_eq (priceLowerBound (fst (deliver readyStore (armedConfig\<lparr>priceUpperBound := Num 300\<rparr>) (snapshotsDuringFetch quietTick)))) (Num 0)
      \<and> js_strict_eq (priceUpperBound (fst (deliver readyStore (armedConfig\<lparr>priceUpperBound := Num 300\<rparr>) (snapshotsDuringFetch quietTick)))) (Num 0))"
    by (simp add: none armedConfig_def js_strict_eq_def)
  show ?thesis
    using C1_dispatch_iff_out_of_bounds[OF key quietTick_price armed]
      C1_dispatch_iff_out_of_bounds[OF key quietTick_price armed']
    by (simp add: key quietTick_price none armedConfig_def js_gt_def js_le_def)
qed

text \<open>
  Claim C2. In a poll that observes a price while both bounds are 0, the price is
  logged, the line "waiting for configuration" follows, and the poll returns: no alert
  is dispatched, no message is posted and no record is written.
\<close>

theorem C2_sentinel_bounds_suppress_alerts:
  fixes sdk :: "'d sdk" and fm config env
  defines "config1 \<equiv> fst (deliver fm config (snapshotsDuringFetch env))"
  defines "arrived \<equiv> snd (deliver fm config (snapshotsDuringFetch env))"
  assumes key: "newPublicKey env (poolAddress config) = None"
    and observed: "snd (fetchPrice sdk env (poolAddress config)) = Inr (p, q)"
    and lower: "js_strict_eq (priceLowerBound config1) (Num 0)"
    and upper: "js_strict_eq (priceUpperBound config1) (Num 0)"
  shows "checkPrice sdk fm config env =
           (config1,
            [ClientGetPool (poolAddress config), FetcherGetPool (poolAddress config)] @ arrived @
              [Console (CurrentPrice p q), Console (WaitingForConfiguration p)],
            Inr ())
         \<and> dispatches (fst (snd (checkPrice sdk fm config env))) = []
         \<and> posts (fst (snd (checkPrice sdk fm config env))) = []
         \<and> alertRecords (fst (snd (checkPrice sdk fm config env))) = []"
proof -
  have ran: "checkPrice_try sdk fm config env =
      (config1,
       [ClientGetPool (poolAddress config), FetcherGetPool (poolAddress config)] @ arrived @
         [Console (CurrentPrice p q), Console (WaitingForConfiguration p)],
       Inr ())"
    using lower upper checkPrice_try_observed[OF key observed, of fm]
    unfolding config1_def arrived_def by (simp add: Let_def)
  then have same: "checkPrice sdk fm config env = checkPrice_try sdk fm config env"
    by (simp add: checkPrice_def)
  show ?thesis
    unfolding same ran arrived_def
    by (simp add: dispatches_append posts_append alertRecords_append deliver_silent)
qed

theorem C2_witness:
  "js_strict_eq (priceLowerBound startConfig) (Num 0) \<and> js_strict_eq (priceUpperBound startConfig) (Num 0)
   \<and> checkPrice exactSdk readyStore startConfig quietTick =
       (startConfig,
        [ClientGetPool ''HJPjoWUrhoZzkNfRpHuieeFk9WcZWjwy6PBjZ81ngndJ'',
         FetcherGetPool ''HJPjoWUrhoZzkNfRpHuieeFk9WcZWjwy6PBjZ81ngndJ'',
         Console (CurrentPrice (Num 250) False), Console (WaitingForConfiguration (Num 250))],
        Inr ())
   \<and> dispatches (fst (snd (checkPrice exactSdk readyStore startConfig quietTick))) = []"
proof -
  have key: "newPublicKey quietTick (poolAddress startConfig) = None"
    by (simp add: quietTick_def)
  have none: "snapshotsDuringFetch quietTick = []"
    by (simp add: quietTick_def)
  have lower: "js_strict_eq (priceLowerBound (fst (deliver readyStore startConfig (snapshotsDuringFetch quietTick)))) (Num 0)"
    by (simp add: none startConfig_def js_strict_eq_def)
  have upper: "js_strict_eq (priceUpperBound (fst (deliver readyStore startConfig (snapshotsDuringFetch quietTick)))) (Num 0)"
    by (simp add: none startConfig_def js_strict_eq_def)
  have address: "poolAddress startConfig = ''HJPjoWUrhoZzkNfRpHuieeFk9WcZWjwy6PBjZ81ngndJ''"
    by (simp add: startConfig_def)
  show ?thesis
    using C2_sentinel_bounds_suppress_alerts[OF key quietTick_price lower upper] lower upper
    by (simp add: none address)
qed

text \<open>
  Claim C3, as the code has it. A dispatch that is not the start-up test, with a token
  that is not a placeholder and a channel that answers (with a body that can be read,
  when the answer is neither 2xx nor 404), hands \<^verbatim>\<open>logAlert\<close> one record whose status is
  \<open>success\<close> for a 2xx answer and \<open>failed\<close> otherwise, and the record is written when the
  store is initialised and the write succeeds. No record is written by a start-up test,
  in demo mode, when the store is not initialised or when the write fails.
\<close>

theorem C3_alert_record_when_channel_answers:
  fixes fm config env price
  defines "config1 \<equiv> fst (deliver fm config (snapshotsDuringSend env))"
  defines "written \<equiv> \<lambda>isTest. alertRecords (fst (snd (sendTelegramAlert fm config price isTest env)))"
  shows "(\<not> isPlaceholderToken (telegramBotToken config) \<and> fetch env = Inr r
            \<and> (ok r \<or> status r = 404 \<or> responseText r = Inr t)
            \<and> db fm \<and> addResult env = None
          \<longrightarrow> written False =
                [\<lparr> alert_poolAddress = poolAddress config1,
                   alert_price = price,
                   alert_lowerBound = priceLowerBound config1,
                   alert_upperBound = priceUpperBound config1,
                   alert_message = alertMessage config price False,
                   alert_telegramStatus = (if ok r then success else failed) \<rparr>])
       \<and> written True = []
       \<and> (isPlaceholderToken (telegramBotToken config) \<longrightarrow> written isTest = [])
       \<and> (\<not> db fm \<or> addResult env \<noteq> None \<longrightarrow> written isTest = [])"
proof -
  have answered: "written False =
      [\<lparr> alert_poolAddress = poolAddress config1, alert_price = price,
         alert_lowerBound = priceLowerBound config1, alert_upperBound = priceUpperBound config1,
         alert_message = alertMessage config price False,
         alert_telegramStatus = (if ok r then success else failed) \<rparr>]"
    if "\<not> isPlaceholderToken (telegramBotToken config)" "fetch env = Inr r"
       "ok r \<or> status r = 404 \<or> responseText r = Inr t" "db fm" "addResult env = None"
    unfolding written_def config1_def sendTelegramAlert_response[OF that(1,2,3)]
    using that(4,5)
    by (simp add: alertRecords_append deliver_silent alertRecords_logAlert)
  have demo: "written isTest = []" if "isPlaceholderToken (telegramBotToken config)" for isTest
    unfolding written_def using that by (simp add: sendTelegramAlert_placeholder)
  have test: "written True = []"
  proof (cases "isPlaceholderToken (telegramBotToken config)")
    case True
    then show ?thesis by (rule demo)
  next
    case False
    then show ?thesis
      unfolding written_def
      by (simp add: sendTelegramAlert_records_via_try sendTelegramAlert_try_test_records)
  qed
  have unwritten: "written isTest = []" if "\<not> db fm \<or> addResult env \<noteq> None"
  proof (cases "isPlaceholderToken (telegramBotToken config)")
    case True
    then show ?thesis by (rule demo)
  next
    case False
    then show ?thesis
      unfolding written_def
      using that by (simp add: sendTelegramAlert_records_via_try sendTelegramAlert_try_records_unwritten)
  qed
  from answered demo test unwritten show ?thesis by blast
qed

theorem C3_witness:
  "\<not> isPlaceholderToken (telegramBotToken armedConfig)
   \<and> fetch notFound = Inr \<lparr>status = 404, statusText = ''Not Found'', responseText = Inr ''Not Found''\<rparr>
   \<and> db readyStore \<and> addResult notFound = None
   \<and> alertRecords (fst (snd (sendTelegramAlert readyStore armedConfig (Num 175) False notFound))) =
       [\<lparr> alert_poolAddress = ''HJPjoWUrhoZzkNfRpHuieeFk9WcZWjwy6PBjZ81ngndJ'',
          alert_price = Num 175, alert_lowerBound = Num 180, alert_upperBound = Num 200,
          alert_message = PriceAlert ''HJPjoWUrhoZzkNfRpHuieeFk9WcZWjwy6PBjZ81ngndJ'' (Num 175) (Num 180) (Num 200),
          alert_telegramStatus = failed \<rparr>]
   \<and> alertRecords (fst (snd (sendTelegramAlert readyStore armedConfig (Num 175) True notFound))) = []
   \<and> isPlaceholderToken (telegramBotToken demoConfig)
   \<and> alertRecords (fst (snd (sendTelegramAlert readyStore demoConfig (Num 175) False notFound))) = []
   \<and> \<not> db noStore
   \<and> alertRecords (fst (snd (sendTelegramAlert noStore armedConfig (Num 175) False notFound))) = []"
proof -
  have env: "fetch notFound = Inr \<lparr>status = 404, statusText = ''Not Found'', responseText = Inr ''Not Found''\<rparr>"
      "addResult notFound = None" "snapshotsDuringSend notFound = []" "db readyStore" "\<not> db noStore"
    by (simp_all add: notFound_def readyStore_def noStore_def)
  have msg: "alertMessage armedConfig (Num 175) False =
      PriceAlert ''HJPjoWUrhoZzkNfRpHuieeFk9WcZWjwy6PBjZ81ngndJ'' (Num 175) (Num 180) (Num 200)"
    by (simp add: alertMessage_def armedConfig_fields)
  show ?thesis
    using C3_alert_record_when_channel_answers[of armedConfig notFound
        "\<lparr>status = 404, statusText = ''Not Found'', responseText = Inr ''Not Found''\<rparr>"
        "''Not Found''" readyStore "Num 175" False]
      C3_alert_record_when_channel_answers[of demoConfig notFound
        "\<lparr>status = 404, statusText = ''Not Found'', responseText = Inr ''Not Found''\<rparr>"
        "''Not Found''" readyStore "Num 175" False]
      C3_alert_record_when_channel_answers[of armedConfig notFound
        "\<lparr>status = 404, statusText = ''Not Found'', responseText = Inr ''Not Found''\<rparr>"
        "''Not Found''" noStore "Num 175" False]
      armedConfig_real demoConfig_placeholder
    by (simp add: env msg armedConfig_fields ok_def)
qed

text \<open>The claim as the spec states it fails in demo mode: an alert for the price 175
  outside the bounds 180 and 200, which is not a start-up test, leaves no record.\<close>

theorem C3_counterexample:
  "dispatches (fst (snd (sendTelegramAlert readyStore demoConfig (Num 175) False accepted))) = [(Num 175, False)]
   \<and> alertRecords (fst (snd (sendTelegramAlert readyStore demoConfig (Num 175) False accepted))) = []"
  by (simp add: sendTelegramAlert_placeholder[OF demoConfig_placeholder])

text \<open>
  Claim C4. When the bot token contains one of the two placeholder substrings,
  \<^verbatim>\<open>sendTelegramAlert\<close> writes the message to the console between two rulers and returns:
  it returns normally, leaves the configuration alone, posts nothing to the channel
  and writes no record.
\<close>

theorem C4_placeholder_token_logs_locally:
  assumes "telegramBotToken config = before @ sentinel @ after"
    and "sentinel = ''123456:ABC'' \<or> sentinel = ''TELEGRAM_BOT_TOKEN''"
  shows "sendTelegramAlert fm config price isTest env =
           (config,
            [Dispatch price isTest, Console MockRuler, Console MockTelegramAlert,
             Console (AlertText (alertMessage config price isTest)), Console MockRuler],
            Inr ())
         \<and> posts (fst (snd (sendTelegramAlert fm config price isTest env))) = []
         \<and> alertRecords (fst (snd (sendTelegramAlert fm config price isTest env))) = []"
proof -
  have "str_includes (telegramBotToken config) sentinel"
    using assms(1) str_includes_iff by blast
  with assms(2) have "isPlaceholderToken (telegramBotToken config)"
    by (auto simp: isPlaceholderToken_def)
  then show ?thesis
    by (simp add: sendTelegramAlert_placeholder)
qed

theorem C4_witness:
  "telegramBotToken demoConfig = [] @ ''123456:ABC'' @ ''-DEF1234ghIkl''
   \<and> sendTelegramAlert readyStore demoConfig (Num 175) False accepted =
       (demoConfig,
        [Dispatch (Num 175) False, Console MockRuler, Console MockTelegramAlert,
         Console (AlertText (PriceAlert ''HJPjoWUrhoZzkNfRpHuieeFk9WcZWjwy6PBjZ81ngndJ'' (Num 175) (Num 180) (Num 200))),
         Console MockRuler],
        Inr ())
   \<and> posts (fst (snd (sendTelegramAlert readyStore demoConfig (Num 175) False accepted))) = []"
proof -
  have token: "telegramBotToken demoConfig = [] @ ''123456:ABC'' @ ''-DEF1234ghIkl''"
    by (simp add: demoConfig_def)
  have msg: "alertMessage demoConfig (Num 175) False =
      PriceAlert ''HJPjoWUrhoZzkNfRpHuieeFk9WcZWjwy6PBjZ81ngndJ'' (Num 175) (Num 180) (Num 200)"
    by (simp add: alertMessage_def demoConfig_def armedConfig_def startConfig_def)
  show ?thesis
    using C4_placeholder_token_logs_locally[OF token, of readyStore "Num 175" False accepted] token
    by (simp add: msg)
qed

text \<open>
  Claim C5. \<^verbatim>\<open>sendTelegramAlert\<close> and \<^verbatim>\<open>checkPrice\<close> return normally whatever the chain, the
  channel and the audit store answer, and so the watch loop runs every poll of any
  sequence: what follows a sequence of polls and snapshots runs after it. Every
  failure ends in a console line: an error thrown in the poll (an address that is not
  a key, a failed request, missing pool data, a price that cannot be inverted) is
  logged by the handler of \<^verbatim>\<open>checkPrice\<close>; a rejected request to the channel, or a body
  that cannot be read, by the handler of \<^verbatim>\<open>sendTelegramAlert\<close>; an answer that is neither
  2xx nor 404 as a failed delivery; a failed write of the record by \<^verbatim>\<open>logAlert\<close>.
\<close>

theorem C5_failures_are_caught_and_logged:
  fixes sdk :: "'d sdk"
  shows "snd (snd (sendTelegramAlert fm config price isTest denv)) = Inr ()
       \<and> snd (snd (checkPrice sdk fm config env)) = Inr ()
       \<and> snd (snd (watchLoop sdk fm config ins)) = Inr ()
       \<and> fst (snd (watchLoop sdk fm config (ins @ ins'))) =
           fst (snd (watchLoop sdk fm config ins)) @
           fst (snd (watchLoop sdk fm (fst (watchLoop sdk fm config ins)) ins'))
       \<and> (newPublicKey env (poolAddress config) = Some e \<longrightarrow>
            fst (snd (checkPrice sdk fm config env)) = [Console (ErrorCheckingPrice e)])
       \<and> (newPublicKey env (poolAddress config) = None
            \<and> snd (fetchPrice sdk env (poolAddress config)) = Inl e \<longrightarrow>
            fst (snd (checkPrice sdk fm config env)) =
              fst (fetchPrice sdk env (poolAddress config)) @
              snd (deliver fm config (snapshotsDuringFetch env)) @ [Console (ErrorCheckingPrice e)])
       \<and> (\<not> isPlaceholderToken (telegramBotToken config)
            \<and> (fetch denv = Inl e
                \<or> (\<exists>r. fetch denv = Inr r \<and> \<not> ok r \<and> status r \<noteq> 404 \<and> responseText r = Inl e)) \<longrightarrow>
            last (fst (snd (sendTelegramAlert fm config price isTest denv))) = Console (ErrorSendingRequest e))
       \<and> (\<not> isPlaceholderToken (telegramBotToken config)
            \<and> fetch denv = Inr r \<and> \<not> ok r \<and> status r \<noteq> 404 \<and> responseText r = Inr t \<longrightarrow>
            Console (FailedToSend (status r) (statusText r) t)
              \<in> set (fst (snd (sendTelegramAlert fm config price isTest denv))))
       \<and> (db fm \<longrightarrow> logAlert fm alert (Some e) = [Console (ErrorLoggingAlert e)])"
proof -
  have invalid: "fst (snd (checkPrice sdk fm config env)) = [Console (ErrorCheckingPrice e)]"
    if "newPublicKey env (poolAddress config) = Some e"
    using checkPrice_caught[of sdk fm config env e] checkPrice_try_invalid_key[OF that, of sdk fm]
    by simp
  have failed: "fst (snd (checkPrice sdk fm config env)) =
      fst (fetchPrice sdk env (poolAddress config)) @
      snd (deliver fm config (snapshotsDuringFetch env)) @ [Console (ErrorCheckingPrice e)]"
    if "newPublicKey env (poolAddress config) = None"
      "snd (fetchPrice sdk env (poolAddress config)) = Inl e"
    using checkPrice_caught[of sdk fm config env e] checkPrice_try_failed[OF that, of fm]
    by simp
  have rejected: "last (fst (snd (sendTelegramAlert fm config price isTest denv))) =
      Console (ErrorSendingRequest e)"
    if "\<not> isPlaceholderToken (telegramBotToken config)"
      "fetch denv = Inl e \<or> (\<exists>r. fetch denv = Inr r \<and> \<not> ok r \<and> status r \<noteq> 404 \<and> responseText r = Inl e)"
    using that(2)
  proof
    assume "fetch denv = Inl e"
    then show ?thesis by (simp add: sendTelegramAlert_rejected[OF that(1)])
  next
    assume "\<exists>r. fetch denv = Inr r \<and> \<not> ok r \<and> status r \<noteq> 404 \<and> responseText r = Inl e"
    then obtain r where "fetch denv = Inr r" "\<not> ok r" "status r \<noteq> 404" "responseText r = Inl e"
      by blast
    then show ?thesis by (simp add: sendTelegramAlert_unreadable[OF that(1)])
  qed
  have refused: "Console (FailedToSend (status r) (statusText r) t)
      \<in> set (fst (snd (sendTelegramAlert fm config price isTest denv)))"
    if "\<not> isPlaceholderToken (telegramBotToken config)" "fetch denv = Inr r" "\<not> ok r"
      "status r \<noteq> 404" "responseText r = Inr t"
    using that(3,4) sendTelegramAlert_response[OF that(1,2), of t fm price isTest] that(5)
    by simp
  have audit: "logAlert fm alert (Some e) = [Console (ErrorLoggingAlert e)]" if "db fm"
    using that by (simp add: logAlert_def)
  have "fst (snd (watchLoop sdk fm config (ins @ ins'))) =
      fst (snd (watchLoop sdk fm config ins)) @
      fst (snd (watchLoop sdk fm (fst (watchLoop sdk fm config ins)) ins'))"
    by (simp add: watchLoop_append)
  with invalid failed rejected refused audit show ?thesis
    by (simp add: sendTelegramAlert_returns checkPrice_returns watchLoop_returns)
qed

theorem C5_witness:
  "newPublicKey badKey (poolAddress armedConfig) = Some (Error ''Invalid public key input'')
   \<and> fst (snd (checkPrice exactSdk readyStore armedConfig badKey)) =
       [Console (ErrorCheckingPrice (Error ''Invalid public key input''))]
   \<and> newPublicKey rpcDown (poolAddress armedConfig) = None
   \<and> snd (fetchPrice exactSdk rpcDown (poolAddress armedConfig)) = Inl (Error ''503 Service Unavailable'')
   \<and> fst (snd (checkPrice exactSdk readyStore armedConfig rpcDown)) =
       [ClientGetPool ''HJPjoWUrhoZzkNfRpHuieeFk9WcZWjwy6PBjZ81ngndJ'',
        Console (ErrorCheckingPrice (Error ''503 Service Unavailable''))]
   \<and> snd (snd (checkPrice exactSdk readyStore armedConfig rpcDown)) = Inr ()
   \<and> \<not> isPlaceholderToken (telegramBotToken armedConfig)
   \<and> fetch unreachable = Inl (Error ''ECONNRESET'')
   \<and> last (fst (snd (sendTelegramAlert readyStore armedConfig (Num 250) False unreachable))) =
       Console (ErrorSendingRequest (Error ''ECONNRESET''))
   \<and> snd (snd (sendTelegramAlert readyStore armedConfig (Num 250) False unreachable)) = Inr ()
   \<and> fetch serverError =
       Inr \<lparr>status = 500, statusText = ''Internal Server Error'', responseText = Inr ''try again''\<rparr>
   \<and> Console (FailedToSend 500 ''Internal Server Error'' ''try again'')
       \<in> set (fst (snd (sendTelegramAlert readyStore armedConfig (Num 250) False serverError)))
   \<and> db readyStore
   \<and> logAlert readyStore
         \<lparr> alert_poolAddress = ''HJPjoWUrhoZzkNfRpHuieeFk9WcZWjwy6PBjZ81ngndJ'',
           alert_price = Num 250, alert_lowerBound = Num 180, alert_upperBound = Num 200,
           alert_message = PriceAlert ''HJPjoWUrhoZzkNfRpHuieeFk9WcZWjwy6PBjZ81ngndJ'' (Num 250) (Num 180) (Num 200),
           alert_telegramStatus = success \<rparr>
         (Some (Error ''UNAVAILABLE'')) = [Console (ErrorLoggingAlert (Error ''UNAVAILABLE''))]
   \<and> snd (snd (watchLoop exactSdk readyStore armedConfig [Tick rpcDown, Tick quietTick])) = Inr ()
   \<and> dispatches (fst (snd (watchLoop exactSdk readyStore armedConfig ([Tick rpcDown] @ [Tick quietTick])))) =
       [(Num 250, False)]"
proof -
  let ?r = "\<lparr>status = 500, statusText = ''Internal Server Error'', responseText = Inr ''try again''\<rparr>"
  let ?alert = "\<lparr> alert_poolAddress = ''HJPjoWUrhoZzkNfRpHuieeFk9WcZWjwy6PBjZ81ngndJ'',
      alert_price = Num 250, alert_lowerBound = Num 180, alert_upperBound = Num 200,
      alert_message = PriceAlert ''HJPjoWUrhoZzkNfRpHuieeFk9WcZWjwy6PBjZ81ngndJ'' (Num 250) (Num 180) (Num 200),
      alert_telegramStatus = success \<rparr>"
  have down: "fetch unreachable = Inl (Error ''ECONNRESET'')"
    by (simp add: unreachable_def)
  have store: "db readyStore"
    by (simp add: readyStore_def)
  have first: "fst (snd (watchLoop exactSdk readyStore armedConfig [Tick rpcDown])) =
      [ClientGetPool ''HJPjoWUrhoZzkNfRpHuieeFk9WcZWjwy6PBjZ81ngndJ'',
       Console (ErrorCheckingPrice (Error ''503 Service Unavailable''))]"
    "fst (watchLoop exactSdk readyStore armedConfig [Tick rpcDown]) = armedConfig"
    unfolding watchLoop_Tick by (simp_all add: rpcDown_poll)
  have second: "dispatches (fst (snd (watchLoop exactSdk readyStore armedConfig [Tick quietTick]))) =
      [(Num 250, False)]"
    unfolding watchLoop_Tick using quietTick_alerts by (simp add: dispatches_append)
  show ?thesis
    using C5_failures_are_caught_and_logged[where sdk = exactSdk and fm = readyStore
        and config = armedConfig and env = rpcDown and e = "Error ''503 Service Unavailable''"
        and ins = "[Tick rpcDown]" and ins' = "[Tick quietTick]" and denv = unreachable
        and price = "Num 250" and isTest = False]
      C5_failures_are_caught_and_logged[where sdk = exactSdk and fm = readyStore
        and config = armedConfig and env = rpcDown and e = "Error ''ECONNRESET''"
        and ins = "[Tick rpcDown, Tick quietTick]" and ins' = "[]" and denv = unreachable
        and price = "Num 250" and isTest = False]
      C5_failures_are_caught_and_logged[where sdk = exactSdk and fm = readyStore
        and config = armedConfig and env = badKey and e = "Error ''Invalid public key input''"
        and ins = "[]" and ins' = "[]" and denv = serverError and r = ?r and t = "''try again''"
        and price = "Num 250" and isTest = False]
      C5_failures_are_caught_and_logged[where sdk = exactSdk and fm = readyStore
        and config = armedConfig and env = badKey and e = "Error ''UNAVAILABLE''"
        and ins = "[]" and ins' = "[]" and denv = serverError and alert = ?alert
        and price = "Num 250" and isTest = False]
      armedConfig_real
    by (simp add: rpcDown_fields badKey_fields serverError_fields armedConfig_fields down store
          first second dispatches_append ok_def del: watchLoop.simps)
qed

text \<open>
  Claim C6. When the channel answers 404 to a dispatch, \<^verbatim>\<open>sendTelegramAlert\<close> logs that the
  token is invalid, falls back to writing the message to the console, and returns
  normally. Every record the dispatch writes has the status \<open>failed\<close>, and a dispatch
  that is not the start-up test writes one when the store takes it.
\<close>

theorem C6_not_found_is_recorded_as_failed:
  fixes fm config env price isTest
  defines "config1 \<equiv> fst (deliver fm config (snapshotsDuringSend env))"
  defines "run \<equiv> sendTelegramAlert fm config price isTest env"
  defines "alert \<equiv>
      \<lparr> alert_poolAddress = poolAddress config1, alert_price = price,
        alert_lowerBound = priceLowerBound config1, alert_upperBound = priceUpperBound config1,
        alert_message = alertMessage config price isTest, alert_telegramStatus = failed \<rparr>"
  assumes real: "\<not> isPlaceholderToken (telegramBotToken config)"
    and answered: "fetch env = Inr r"
    and not_found: "status r = 404"
  shows "run =
           (config1,
            Dispatch price isTest #
            HttpPost (sendMessageUrl config) (telegramChatId config) (alertMessage config price isTest) #
              snd (deliver fm config (snapshotsDuringSend env)) @
              [Console Failed404, Console FallingBack, Console (AlertText (alertMessage config price isTest))] @
              (if \<not> isTest then logAlert fm alert (addResult env) else []),
            Inr ())
         \<and> (\<forall>a \<in> set (alertRecords (fst (snd run))). alert_telegramStatus a = failed)
         \<and> (\<not> isTest \<and> db fm \<and> addResult env = None \<longrightarrow> alertRecords (fst (snd run)) = [alert])
         \<and> snd (snd run) = Inr ()"
proof -
  have "\<not> ok r" using not_found by (simp add: ok_def)
  then have run: "run =
      (config1,
       Dispatch price isTest #
       HttpPost (sendMessageUrl config) (telegramChatId config) (alertMessage config price isTest) #
         snd (deliver fm config (snapshotsDuringSend env)) @
         [Console Failed404, Console FallingBack, Console (AlertText (alertMessage config price isTest))] @
         (if \<not> isTest then logAlert fm alert (addResult env) else []),
       Inr ())"
    unfolding run_def config1_def alert_def
    using sendTelegramAlert_response[OF real answered, of "[]" fm price isTest] not_found
    by simp
  have records: "alertRecords (fst (snd run)) =
      (if \<not> isTest \<and> db fm \<and> addResult env = None then [alert] else [])"
    unfolding run by (simp add: alertRecords_append deliver_silent alertRecords_logAlert)
  have "alert_telegramStatus alert = failed" by (simp add: alert_def)
  with records have all_failed: "\<forall>a \<in> set (alertRecords (fst (snd run))). alert_telegramStatus a = failed"
    by simp
  have taken: "\<not> isTest \<and> db fm \<and> addResult env = None \<longrightarrow> alertRecords (fst (snd run)) = [alert]"
    using records by simp
  have returns: "snd (snd run) = Inr ()"
    unfolding run by simp
  from run all_failed taken returns show ?thesis by blast
qed

theorem C6_witness:
  "\<not> isPlaceholderToken (telegramBotToken armedConfig)
   \<and> fetch notFound = Inr \<lparr>status = 404, statusText = ''Not Found'', responseText = Inr ''Not Found''\<rparr>
   \<and> sendTelegramAlert readyStore armedConfig (Num 175) False notFound =
       (armedConfig,
        [Dispatch (Num 175) False,
         HttpPost ''https://api.telegram.org/bot7312345678:AAHexample/sendMessage'' ''-1001234567890''
           (PriceAlert ''HJPjoWUrhoZzkNfRpHuieeFk9WcZWjwy6PBjZ81ngndJ'' (Num 175) (Num 180) (Num 200)),
         Console Failed404, Console FallingBack,
         Console (AlertText (PriceAlert ''HJPjoWUrhoZzkNfRpHuieeFk9WcZWjwy6PBjZ81ngndJ'' (Num 175) (Num 180) (Num 200))),
         AlertsAdd
           \<lparr> alert_poolAddress = ''HJPjoWUrhoZzkNfRpHuieeFk9WcZWjwy6PBjZ81ngndJ'',
             alert_price = Num 175, alert_lowerBound = Num 180, alert_upperBound = Num 200,
             alert_message = PriceAlert ''HJPjoWUrhoZzkNfRpHuieeFk9WcZWjwy6PBjZ81ngndJ'' (Num 175) (Num 180) (Num 200),
             alert_telegramStatus = failed \<rparr>,
         Console AlertLogged],
        Inr ())
   \<and> map alert_telegramStatus
         (alertRecords (fst (snd (sendTelegramAlert readyStore armedConfig (Num 175) False notFound)))) = [failed]"
proof -
  have env: "fetch notFound = Inr \<lparr>status = 404, statusText = ''Not Found'', responseText = Inr ''Not Found''\<rparr>"
      "addResult notFound = None" "snapshotsDuringSend notFound = []" "db readyStore"
    by (simp_all add: notFound_def readyStore_def)
  have msg: "alertMessage armedConfig (Num 175) False =
      PriceAlert ''HJPjoWUrhoZzkNfRpHuieeFk9WcZWjwy6PBjZ81ngndJ'' (Num 175) (Num 180) (Num 200)"
    by (simp add: alertMessage_def armedConfig_fields)
  have to: "sendMessageUrl armedConfig = ''https://api.telegram.org/bot7312345678:AAHexample/sendMessage''"
      "telegramChatId armedConfig = ''-1001234567890''"
    by (simp_all add: sendMessageUrl_def armedConfig_def startConfig_def)
  show ?thesis
    using C6_not_found_is_recorded_as_failed[OF armedConfig_real env(1), of readyStore "Num 175" False]
      armedConfig_real
    by (simp add: env msg to armedConfig_fields logAlert_def)
qed



text \<open>
  Claim C8, as the code has it. Let \<open>p\<close> and \<open>q\<close> be a price and its inverse: the
  inversion maps each to the other, and they differ. Orienting \<open>p\<close> with the mint
  \<open>mintA\<close> listed first gives the same value as orienting \<open>q\<close> with the mint \<open>mintB\<close>
  listed first exactly when one of the two mints, and not the other, is recognised as
  a quote token (it starts with \<^verbatim>\<open>EPj\<close> or \<^verbatim>\<open>Es9\<close>). The heuristic looks at the first
  mint only, so with two recognised mints, or with none, the two orientations differ.
\<close>

theorem C8_orientation_under_swap:
  assumes "invert p decimalsA decimalsB = Inr q"
    and "invert q decimalsB decimalsA = Inr p"
    and "p \<noteq> q"
  shows "orientPrice invert mintA p decimalsA decimalsB = orientPrice invert mintB q decimalsB decimalsA
         \<longleftrightarrow> isQuoteToken mintA \<noteq> isQuoteToken mintB"
  using assms by (auto simp: orientPrice_def)

theorem C8_witness:
  "reciprocalPrice (1 / 200) 6 9 = Inr 200 \<and> reciprocalPrice 200 9 6 = Inr (1 / 200)
   \<and> (1 / 200 :: rat) \<noteq> 200
   \<and> isQuoteToken ''EPjFWdd5AufqSSqeM2qN1xzybapC8G4wEGGkZwyTDt1v''
   \<and> \<not> isQuoteToken ''So11111111111111111111111111111111111111112''
   \<and> orientPrice reciprocalPrice ''EPjFWdd5AufqSSqeM2qN1xzybapC8G4wEGGkZwyTDt1v'' (1 / 200) 6 9 = Inr 200
   \<and> orientPrice reciprocalPrice ''So11111111111111111111111111111111111111112'' 200 9 6 = Inr 200"
proof -
  have there: "reciprocalPrice (1 / 200) 6 9 = Inr 200"
    and bwd: "reciprocalPrice 200 9 6 = Inr (1 / 200)"
    and differ: "(1 / 200 :: rat) \<noteq> 200"
    by (simp_all add: reciprocalPrice_def)
  have usdc: "isQuoteToken ''EPjFWdd5AufqSSqeM2qN1xzybapC8G4wEGGkZwyTDt1v''"
    and sol: "\<not> isQuoteToken ''So11111111111111111111111111111111111111112''"
    by (simp_all add: isQuoteToken_def startsWith_def)
  have "orientPrice reciprocalPrice ''So11111111111111111111111111111111111111112'' 200 9 6 = Inr 200"
    using sol by (simp add: orientPrice_def)
  moreover have "orientPrice reciprocalPrice ''EPjFWdd5AufqSSqeM2qN1xzybapC8G4wEGGkZwyTDt1v'' (1 / 200) 6 9 =
      orientPrice reciprocalPrice ''So11111111111111111111111111111111111111112'' 200 9 6"
    using C8_orientation_under_swap[where invert = reciprocalPrice and p = "1 / 200" and q = 200
        and decimalsA = 6 and decimalsB = 9
        and mintA = "''EPjFWdd5AufqSSqeM2qN1xzybapC8G4wEGGkZwyTDt1v''"
        and mintB = "''So11111111111111111111111111111111111111112''", OF there bwd differ]
      usdc sol
    by simp
  ultimately show ?thesis
    using there bwd differ usdc sol by simp
qed

text \<open>The claim as the spec states it fails for a pool of two tokens of which none is
  recognised, here wrapped SOL and mSOL: the price 2 stays 2, and its reciprocal 1/2,
  seen from the other side, stays 1/2.\<close>

theorem C8_counterexample:
  "reciprocalPrice 2 9 9 = Inr (1 / 2)
   \<and> orientPrice reciprocalPrice ''So11111111111111111111111111111111111111112'' 2 9 9 = Inr 2
   \<and> orientPrice reciprocalPrice ''mSoLzYCxHdYgdzU16g5QSh3i5K3z3KZK7ytfqcJm7So'' (1 / 2) 9 9 = Inr (1 / 2)
   \<and> orientPrice reciprocalPrice ''So11111111111111111111111111111111111111112'' 2 9 9
       \<noteq> orientPrice reciprocalPrice ''mSoLzYCxHdYgdzU16g5QSh3i5K3z3KZK7ytfqcJm7So'' (1 / 2) 9 9"
  by (simp add: reciprocalPrice_def orientPrice_def isQuoteToken_def startsWith_def)

text \<open>
  Claim C9. A document the store delivers changes only the fields it carries: without
  a lower (upper) bound the lower (upper) bound stays as it was; the pool address
  changes exactly when the document carries an address that is not empty and differs
  from the current one; the other fields of the configuration never change. So a
  document with one bound sets that bound and keeps the other, and a snapshot of a
  missing document changes nothing.
\<close>

theorem C9_absent_fields_are_kept:
  fixes fm config u
  defines "config1 \<equiv> fst (deliver fm config [Some u])"
  assumes store: "db fm" "configRef fm"
  shows "(opt_priceLowerBound u = None \<longrightarrow> priceLowerBound config1 = priceLowerBound config)
       \<and> (opt_priceUpperBound u = None \<longrightarrow> priceUpperBound config1 = priceUpperBound config)
       \<and> (poolAddress config1 \<noteq> poolAddress config
            \<longleftrightarrow> (\<exists>a. opt_poolAddress u = Some a \<and> a \<noteq> [] \<and> a \<noteq> poolAddress config))
       \<and> (\<forall>a. opt_poolAddress u = Some a \<and> a \<noteq> [] \<longrightarrow> poolAddress config1 = a)
       \<and> (\<forall>l. opt_priceLowerBound u = Some l \<and> opt_priceUpperBound u = None
              \<longrightarrow> priceLowerBound config1 = l \<and> priceUpperBound config1 = priceUpperBound config)
       \<and> (\<forall>h. opt_priceUpperBound u = Some h \<and> opt_priceLowerBound u = None
              \<longrightarrow> priceUpperBound config1 = h \<and> priceLowerBound config1 = priceLowerBound config)
       \<and> rpcUrl config1 = rpcUrl config
       \<and> telegramBotToken config1 = telegramBotToken config
       \<and> telegramChatId config1 = telegramChatId config
       \<and> checkIntervalMs config1 = checkIntervalMs config
       \<and> fst (deliver fm config [None]) = config"
proof -
  have eq: "config1 = fst (configCallback config u)"
    unfolding config1_def using store by (simp add: deliver_single onSnapshot_Some del: deliver.simps)
  have missing: "fst (deliver fm config [None]) = config"
    using store by (simp add: deliver_single onSnapshot_None del: deliver.simps)
  have address: "poolAddress config1 \<noteq> poolAddress config
      \<longleftrightarrow> (\<exists>a. opt_poolAddress u = Some a \<and> a \<noteq> [] \<and> a \<noteq> poolAddress config)"
    unfolding eq by (cases "opt_poolAddress u") (auto simp: configCallback_poolAddress)
  show ?thesis
    unfolding eq[symmetric]
    using address missing
    by (simp add: eq configCallback_poolAddress configCallback_priceLowerBound
          configCallback_priceUpperBound configCallback_frame del: deliver.simps)
qed

theorem C9_witness:
  "db readyStore \<and> configRef readyStore
   \<and> opt_priceLowerBound lowerOnly = Some (Num 150) \<and> opt_priceUpperBound lowerOnly = None
   \<and> opt_poolAddress lowerOnly = None
   \<and> priceLowerBound (fst (deliver readyStore armedConfig [Some lowerOnly])) = Num 150
   \<and> priceUpperBound (fst (deliver readyStore armedConfig [Some lowerOnly])) = Num 200
   \<and> poolAddress (fst (deliver readyStore armedConfig [Some lowerOnly])) =
       ''HJPjoWUrhoZzkNfRpHuieeFk9WcZWjwy6PBjZ81ngndJ''
   \<and> opt_priceLowerBound upperOnly = None \<and> opt_priceUpperBound upperOnly = Some (Num 260)
   \<and> priceLowerBound (fst (deliver readyStore armedConfig [Some upperOnly])) = Num 180
   \<and> priceUpperBound (fst (deliver readyStore armedConfig [Some upperOnly])) = Num 260
   \<and> opt_poolAddress poolSwitch = Some ''Czfq3xZZDmsdGdUyrNLtRhGc47cXcZtLG4crryfu44zE''
   \<and> opt_priceLowerBound poolSwitch = None \<and> opt_priceUpperBound poolSwitch = None
   \<and> poolAddress (fst (deliver readyStore armedConfig [Some poolSwitch])) =
       ''Czfq3xZZDmsdGdUyrNLtRhGc47cXcZtLG4crryfu44zE''
   \<and> priceLowerBound (fst (deliver readyStore armedConfig [Some poolSwitch])) = Num 180
   \<and> priceUpperBound (fst (deliver readyStore armedConfig [Some poolSwitch])) = Num 200"
proof -
  have store: "db readyStore" "configRef readyStore"
    by (simp_all add: readyStore_def)
  have docs: "opt_priceLowerBound lowerOnly = Some (Num 150)" "opt_priceUpperBound lowerOnly = None"
      "opt_poolAddress lowerOnly = None"
      "opt_priceLowerBound upperOnly = None" "opt_priceUpperBound upperOnly = Some (Num 260)"
      "opt_poolAddress poolSwitch = Some ''Czfq3xZZDmsdGdUyrNLtRhGc47cXcZtLG4crryfu44zE''"
      "opt_priceLowerBound poolSwitch = None" "opt_priceUpperBound poolSwitch = None"
    by (simp_all add: lowerOnly_def upperOnly_def poolSwitch_def)
  show ?thesis
    using C9_absent_fields_are_kept[OF store, of lowerOnly armedConfig]
      C9_absent_fields_are_kept[OF store, of upperOnly armedConfig]
      C9_absent_fields_are_kept[OF store, of poolSwitch armedConfig]
    by (simp add: store docs armedConfig_fields del: deliver.simps)
qed

text \<open>
  Claim C10. While no socket opens, the hook makes at most \<open>maxReconnectAttempts\<close>
  reconnections, whatever the order in which sockets fail and close and timeouts fire;
  from any state, at most as many as there are timeouts pending plus attempts left.
  Each timeout is set with the delay \<open>reconnectDelay\<close>. When \<open>n\<close> connections fail one
  after the other, the hook reconnects \<open>min n maxReconnectAttempts\<close> times and shows
  itself disconnected. Below the cap, \<^verbatim>\<open>onclose\<close> sets one timeout; at the cap it sets
  none and only marks the hook disconnected. \<^verbatim>\<open>onopen\<close> puts the counter back to zero.
  Without options the cap is 10 and the delay 3000 ms.
\<close>

theorem C10_reconnection_is_capped:
  "(Opened \<notin> set ins \<longrightarrow>
      reconnections (snd (ws_run options h ins)) \<le>
        pendingTimeouts h + (maxReconnectAttempts_of options - reconnectAttempts h))
   \<and> (Opened \<notin> set ins \<longrightarrow>
        reconnections (snd (ws_run options mounted ins)) \<le> maxReconnectAttempts_of options)
   \<and> set (delays (snd (ws_run options h ins))) \<subseteq> {reconnectDelay_of options}
   \<and> reconnections (snd (ws_run options mounted (failures n))) = min n (maxReconnectAttempts_of options)
   \<and> \<not> isConnected (fst (ws_run options mounted (failures n)))
   \<and> (reconnectAttempts h < maxReconnectAttempts_of options \<longrightarrow>
        delays (snd (onclose options h)) = [reconnectDelay_of options]
        \<and> reconnectAttempts (fst (onclose options h)) = reconnectAttempts h + 1)
   \<and> (maxReconnectAttempts_of options \<le> reconnectAttempts h \<longrightarrow>
        onclose options h = (h\<lparr>isConnected := False\<rparr>, [LogDisconnected, OnDisconnect]))
   \<and> \<not> isConnected (fst (onclose options h))
   \<and> reconnectAttempts (fst (onopen h)) = 0 \<and> isConnected (fst (onopen h))
   \<and> maxReconnectAttempts_of noOptions = 10 \<and> reconnectDelay_of noOptions = 3000"
proof -
  have general: "reconnections (snd (ws_run options h ins)) \<le>
      pendingTimeouts h + (maxReconnectAttempts_of options - reconnectAttempts h)"
    if "Opened \<notin> set ins"
    using that by (rule ws_run_reconnections_capped)
  have from_mount: "reconnections (snd (ws_run options mounted ins)) \<le> maxReconnectAttempts_of options"
    if "Opened \<notin> set ins"
    using ws_run_reconnections_capped[OF that, of options mounted] by (simp add: mounted_def)
  have exact: "reconnections (snd (ws_run options mounted (failures n))) =
      min n (maxReconnectAttempts_of options)"
    using failures_reconnections[of mounted options n] by (simp add: mounted_def)
  have shown: "\<not> isConnected (fst (ws_run options mounted (failures n)))"
    by (rule failures_disconnected) (simp add: mounted_def)
  have below: "delays (snd (onclose options h)) = [reconnectDelay_of options]
      \<and> reconnectAttempts (fst (onclose options h)) = reconnectAttempts h + 1"
    if "reconnectAttempts h < maxReconnectAttempts_of options"
    using that by (simp add: onclose_below_cap)
  have closed: "\<not> isConnected (fst (onclose options h))"
    by (simp add: onclose_def Let_def)
  have opened: "reconnectAttempts (fst (onopen h)) = 0 \<and> isConnected (fst (onopen h))"
    by (simp add: onopen_def)
  have defaults: "maxReconnectAttempts_of noOptions = 10 \<and> reconnectDelay_of noOptions = 3000"
    by (simp add: maxReconnectAttempts_of_def reconnectDelay_of_def noOptions_def)
  from general from_mount ws_run_delays[of options h ins] exact shown below
    onclose_at_cap[of options h] closed opened defaults
  show ?thesis by blast
qed

theorem C10_witness:
  "maxReconnectAttempts_of twoAttempts = 2 \<and> reconnectDelay_of twoAttempts = 500
   \<and> Opened \<notin> set [Errored, Closed, TimeoutFired None, Closed, Closed, TimeoutFired None, Closed]
   \<and> reconnections (snd (ws_run twoAttempts mounted
        [Errored, Closed, TimeoutFired None, Closed, Closed, TimeoutFired None, Closed])) \<le> 2
   \<and> reconnections (snd (ws_run twoAttempts (mounted\<lparr>reconnectAttempts := 1, pendingTimeouts := 1\<rparr>)
        [Errored, Closed, TimeoutFired None, Closed, Closed, TimeoutFired None, Closed])) \<le> 2
   \<and> reconnections (snd (ws_run twoAttempts mounted (failures 5))) = 2
   \<and> \<not> isConnected (fst (ws_run twoAttempts mounted (failures 5)))
   \<and> reconnectAttempts mounted < maxReconnectAttempts_of twoAttempts
   \<and> delays (snd (onclose twoAttempts mounted)) = [500]
   \<and> maxReconnectAttempts_of twoAttempts \<le> reconnectAttempts (mounted\<lparr>reconnectAttempts := 2\<rparr>)
   \<and> onclose twoAttempts (mounted\<lparr>reconnectAttempts := 2\<rparr>) =
       (mounted\<lparr>reconnectAttempts := 2, isConnected := False\<rparr>, [LogDisconnected, OnDisconnect])"
proof -
  let ?ins = "[Errored, Closed, TimeoutFired None, Closed, Closed, TimeoutFired None, Closed]"
  have options: "maxReconnectAttempts_of twoAttempts = 2" "reconnectDelay_of twoAttempts = 500"
    by (simp_all add: maxReconnectAttempts_of_def reconnectDelay_of_def twoAttempts_def)
  have failing: "Opened \<notin> set ?ins"
    by simp
  have fresh: "reconnectAttempts mounted < maxReconnectAttempts_of twoAttempts"
    by (simp add: options mounted_def)
  have spent: "maxReconnectAttempts_of twoAttempts \<le> reconnectAttempts (mounted\<lparr>reconnectAttempts := 2\<rparr>)"
    by (simp add: options)
  note any = C10_reconnection_is_capped[of ?ins twoAttempts mounted 5]
  note midway = C10_reconnection_is_capped[of ?ins twoAttempts
      "mounted\<lparr>reconnectAttempts := 1, pendingTimeouts := 1\<rparr>" 5]
  note at_cap = C10_reconnection_is_capped[of ?ins twoAttempts "mounted\<lparr>reconnectAttempts := 2\<rparr>" 5]
  have bounded: "reconnections (snd (ws_run twoAttempts mounted ?ins)) \<le> 2"
    using any[THEN conjunct2, THEN conjunct1, THEN mp, OF failing] by (simp only: options)
  have bounded': "reconnections (snd (ws_run twoAttempts
      (mounted\<lparr>reconnectAttempts := 1, pendingTimeouts := 1\<rparr>) ?ins)) \<le> 2"
    using midway[THEN conjunct1, THEN mp, OF failing] by (simp add: options)
  have exact: "reconnections (snd (ws_run twoAttempts mounted (failures 5))) = 2"
    using any[THEN conjunct2, THEN conjunct2, THEN conjunct2, THEN conjunct1] by (simp add: options)
  have shown: "\<not> isConnected (fst (ws_run twoAttempts mounted (failures 5)))"
    using any[THEN conjunct2, THEN conjunct2, THEN conjunct2, THEN conjunct2, THEN conjunct1] .
  have below: "delays (snd (onclose twoAttempts mounted)) = [500]"
    using any[THEN conjunct2, THEN conjunct2, THEN conjunct2, THEN conjunct2, THEN conjunct2,
        THEN conjunct1, THEN mp, OF fresh, THEN conjunct1]
    by (simp only: options)
  have stop: "onclose twoAttempts (mounted\<lparr>reconnectAttempts := 2\<rparr>) =
      (mounted\<lparr>reconnectAttempts := 2, isConnected := False\<rparr>, [LogDisconnected, OnDisconnect])"
    using at_cap[THEN conjunct2, THEN conjunct2, THEN conjunct2, THEN conjunct2, THEN conjunct2,
        THEN conjunct2, THEN conjunct1, THEN mp, OF spent]
    by simp
  from options failing bounded bounded' exact shown fresh below spent stop show ?thesis
    by (intro conjI)
qed

end
